theory Spec2Isabelle
  imports Main "HOL-Library.Word"
begin

section \<open>The BlockID identity registry\<close>

text \<open>
  A shallow embedding of the contract \<open>BlockID\<close> (Solidity 0.8.20). Storage is a record
  with one field per state variable; a Solidity mapping is a total function whose
  unwritten keys hold the zero value of the value type; \<open>uint256\<close>, \<open>bytes32\<close> and
  \<open>address\<close> are machine words; arithmetic is checked, as the compiler makes it, and an
  overflow is the revert \<open>ArithmeticPanic\<close>. Every external function is modelled twice:
  its body, which threads the storage through the statements in source order and
  returns the storage it had reached together with the revert reason or the returned
  value, and the call itself, which is the body run as a transaction.
\<close>

subsection \<open>Data\<close>

type_synonym address = "160 word"
type_synonym uint256 = "256 word"
type_synonym bytes32 = "256 word"

record Identity =
  owner :: address
  ipfsHash :: string
  createdAt :: uint256
  expiresAt :: uint256
  isVerified :: bool
  idType :: string
  uniqueIdentityHash :: bytes32

text \<open>The fields \<open>ipfsHash\<close> and \<open>uniqueIdentityHash\<close> of \<open>IDRequest\<close> carry the prefix
  \<open>req_\<close>, since a record field is a constant and \<open>Identity\<close> has taken the names.\<close>

record IDRequest =
  requester :: address
  req_ipfsHash :: string
  requestedAt :: uint256
  req_uniqueIdentityHash :: bytes32
  isPending :: bool
  isApproved :: bool
  isRejected :: bool

datatype event =
    IdentityCreated uint256 address string bytes32
  | IdentityVerified uint256 address
  | IdentityRevoked uint256 address
  | VerifierAdded address
  | VerifierRemoved address
  | AdminChanged address address
  | IDRequested uint256 address bytes32
  | IDRequestApproved uint256 uint256 address
  | IDRequestRejected uint256 address string

text \<open>Modelled from the spec: the contract inherits \<open>Ownable\<close>, whose source is not part
  of the repository. Its storage is the field \<open>ownable_owner\<close> (what \<open>owner()\<close> returns),
  set to the deployer by \<open>Ownable(msg.sender)\<close>; the spec's "owner (single, replaceable
  only by itself)" and "changeAdmin (owner-only)" give the modifier \<open>onlyOwner\<close> and the
  two inherited calls \<open>transferOwnership\<close> and \<open>renounceOwnership\<close> below.
  The field \<open>events\<close> is the log of the events this contract emits, oldest first;
  \<open>Ownable\<close>'s own event at deployment is not part of it.\<close>

record state =
  identities :: "uint256 \<Rightarrow> Identity"
  walletToId :: "address \<Rightarrow> uint256"
  hashToId :: "bytes32 \<Rightarrow> uint256"
  verifiers :: "address \<Rightarrow> bool"
  adminWallet :: address
  requestCounter :: uint256
  idRequests :: "uint256 \<Rightarrow> IDRequest"
  userRequests :: "address \<Rightarrow> uint256 list"
  idCounter :: uint256
  ownable_owner :: address
  events :: "event list"

text \<open>What a call sees of its transaction: \<open>msg.sender\<close> and \<open>block.timestamp\<close>.\<close>

record tx_context =
  msg_sender :: address
  block_timestamp :: uint256

text \<open>One constructor per revert message of the source, in the order of first
  appearance, then the two custom errors of \<open>Ownable\<close> and the compiler's overflow panic.\<close>

datatype revert_reason =
    CallerNotVerifier          \<comment> \<open>"BlockID: caller is not a verifier"\<close>
  | CallerNotAdmin             \<comment> \<open>"BlockID: caller is not the admin"\<close>
  | InvalidAddress             \<comment> \<open>"BlockID: invalid address"\<close>
  | WalletAlreadyHasID         \<comment> \<open>"BlockID: wallet already has an ID"\<close>
  | HashAlreadyExists          \<comment> \<open>"BlockID: identity with this hash already exists"\<close>
  | RequestAlreadyPending      \<comment> \<open>"BlockID: a request with this hash is already pending"\<close>
  | RequestDoesNotExist        \<comment> \<open>"BlockID: request does not exist"\<close>
  | RequestNotPending          \<comment> \<open>"BlockID: request is not pending"\<close>
  | RequesterAlreadyHasID      \<comment> \<open>"BlockID: requester already has an ID"\<close>
  | WalletAlreadyHasIDMinted   \<comment> \<open>"BlockID: wallet already has an ID minted"\<close>
  | UniqueHashAlreadyExists    \<comment> \<open>"BlockID: identity with this unique hash already exists"\<close>
  | IdentityDoesNotExist       \<comment> \<open>"BlockID: identity does not exist"\<close>
  | IdentityAlreadyVerified    \<comment> \<open>"BlockID: identity already verified"\<close>
  | CallerNotAuthorized        \<comment> \<open>"BlockID: caller is not authorized"\<close>
  | CallerNotOwnerOrAdmin      \<comment> \<open>"BlockID: caller is not the owner or admin"\<close>
  | AlreadyVerifier            \<comment> \<open>"BlockID: already a verifier"\<close>
  | NotVerifier                \<comment> \<open>"BlockID: not a verifier"\<close>
  | CannotRemoveAdmin          \<comment> \<open>"BlockID: cannot remove admin as verifier"\<close>
  | CannotRemoveOwner          \<comment> \<open>"BlockID: cannot remove owner as verifier"\<close>
  | OwnableUnauthorizedAccount \<comment> \<open>\<open>onlyOwner\<close> of \<open>Ownable\<close>\<close>
  | OwnableInvalidOwner        \<comment> \<open>\<open>transferOwnership\<close> of \<open>Ownable\<close> to the zero address\<close>
  | ArithmeticPanic            \<comment> \<open>\<open>Panic(0x11)\<close>: checked arithmetic overflowed\<close>

text \<open>The error kinds of the specification (its section 7), and the kind it gives to each
  revert of the source. The two reverts about verifier membership that the specification
  does not classify are taken as \<open>InvalidStateError\<close>; the overflow panic is outside the
  taxonomy.\<close>

datatype error_kind =
    AuthorizationError
  | DuplicateIdentityError
  | DuplicateFingerprintError
  | DuplicatePendingRequestError
  | NotFoundError
  | InvalidStateError
  | InvalidArgumentError
  | Unclassified

fun kind_of :: "revert_reason \<Rightarrow> error_kind" where
  "kind_of CallerNotVerifier = AuthorizationError"
| "kind_of CallerNotAdmin = AuthorizationError"
| "kind_of InvalidAddress = InvalidArgumentError"
| "kind_of WalletAlreadyHasID = DuplicateIdentityError"
| "kind_of HashAlreadyExists = DuplicateFingerprintError"
| "kind_of RequestAlreadyPending = DuplicatePendingRequestError"
| "kind_of RequestDoesNotExist = NotFoundError"
| "kind_of RequestNotPending = InvalidStateError"
| "kind_of RequesterAlreadyHasID = DuplicateIdentityError"
| "kind_of WalletAlreadyHasIDMinted = DuplicateIdentityError"
| "kind_of UniqueHashAlreadyExists = DuplicateFingerprintError"
| "kind_of IdentityDoesNotExist = NotFoundError"
| "kind_of IdentityAlreadyVerified = InvalidStateError"
| "kind_of CallerNotAuthorized = AuthorizationError"
| "kind_of CallerNotOwnerOrAdmin = AuthorizationError"
| "kind_of AlreadyVerifier = InvalidStateError"
| "kind_of NotVerifier = InvalidStateError"
| "kind_of CannotRemoveAdmin = AuthorizationError"
| "kind_of CannotRemoveOwner = AuthorizationError"
| "kind_of OwnableUnauthorizedAccount = AuthorizationError"
| "kind_of OwnableInvalidOwner = InvalidArgumentError"
| "kind_of ArithmeticPanic = Unclassified"

subsection \<open>Zero values, checked arithmetic, transactions\<close>

text \<open>The value a mapping holds at a key never written, and after \<open>delete\<close>.\<close>

definition empty_identity :: Identity where
  "empty_identity =
     \<lparr>owner = 0, ipfsHash = [], createdAt = 0, expiresAt = 0, isVerified = False,
      idType = [], uniqueIdentityHash = 0\<rparr>"

definition empty_request :: IDRequest where
  "empty_request =
     \<lparr>requester = 0, req_ipfsHash = [], requestedAt = 0, req_uniqueIdentityHash = 0,
      isPending = False, isApproved = False, isRejected = False\<rparr>"

text \<open>\<open>a + b\<close> and \<open>a++\<close> on \<open>uint256\<close> under Solidity 0.8: \<open>None\<close> is the overflow panic.\<close>

definition checked_add :: "uint256 \<Rightarrow> uint256 \<Rightarrow> uint256 option" where
  "checked_add a b = (if unat a + unat b < 2 ^ 256 then Some (a + b) else None)"

text \<open>A call is a transaction: when the body reverts, every storage write and every
  event of the call is undone, and the caller gets the reason; otherwise the storage
  the body reached is committed.\<close>

definition transaction :: "state \<Rightarrow> state \<times> (revert_reason + 'a) \<Rightarrow> state \<times> (revert_reason + 'a)" where
  "transaction s r = (case snd r of Inl e \<Rightarrow> (s, Inl e) | Inr v \<Rightarrow> (fst r, Inr v))"

definition emit :: "event \<Rightarrow> state \<Rightarrow> state" where
  "emit e s = s\<lparr>events := events s @ [e]\<rparr>"

subsection \<open>Deployment and views\<close>

text \<open>The constructor; \<open>msg.sender\<close> is the deployer.\<close>

definition constructor :: "tx_context \<Rightarrow> address \<Rightarrow> state" where
  "constructor env adminWallet' =
     \<lparr>identities = (\<lambda>_. empty_identity),
      walletToId = (\<lambda>_. 0),
      hashToId = (\<lambda>_. 0),
      verifiers = ((\<lambda>_. False)(msg_sender env := True))(adminWallet' := True),
      adminWallet = adminWallet',
      requestCounter = 0,
      idRequests = (\<lambda>_. empty_request),
      userRequests = (\<lambda>_. []),
      idCounter = 0,
      ownable_owner = msg_sender env,
      events = [VerifierAdded (msg_sender env), VerifierAdded adminWallet',
                AdminChanged 0 adminWallet']\<rparr>"

definition getAdmin :: "state \<Rightarrow> address" where
  "getAdmin s = adminWallet s"

definition hasIdentity :: "state \<Rightarrow> address \<Rightarrow> bool" where
  "hasIdentity s a = (walletToId s a \<noteq> 0)"

definition isHashRegistered :: "state \<Rightarrow> bytes32 \<Rightarrow> bool" where
  "isHashRegistered s uniqueHash = (hashToId s uniqueHash \<noteq> 0)"

definition isAdmin :: "state \<Rightarrow> address \<Rightarrow> bool" where
  "isAdmin s addr = (addr = adminWallet s)"

definition isVerifier :: "state \<Rightarrow> address \<Rightarrow> bool" where
  "isVerifier s verifier = verifiers s verifier"

definition getIdentityByOwner :: "state \<Rightarrow> address \<Rightarrow> uint256" where
  "getIdentityByOwner s a = walletToId s a"

definition getIdentityByHash :: "state \<Rightarrow> bytes32 \<Rightarrow> uint256" where
  "getIdentityByHash s uniqueHash = hashToId s uniqueHash"

definition getUserRequests :: "state \<Rightarrow> address \<Rightarrow> uint256 list" where
  "getUserRequests s user = userRequests s user"

text \<open>\<open>isIdentityValid\<close> has no \<open>require\<close>, no arithmetic and no array access: it has no
  revert path, and its model is a total function to \<open>bool\<close>. The three early returns
  are kept in source order.\<close>

definition isIdentityValid :: "tx_context \<Rightarrow> state \<Rightarrow> uint256 \<Rightarrow> bool" where
  "isIdentityValid env s idNumber =
     (let identity = identities s idNumber in
      if owner identity = 0 then False
      else if \<not> isVerified identity then False
      else if expiresAt identity > 0 \<and> block_timestamp env > expiresAt identity then False
      else True)"

subsection \<open>Roles\<close>

text \<open>Modelled from the spec: the two calls by which the owner is "replaceable only by
  itself", inherited from \<open>Ownable\<close>, whose source is not part of the repository.
  \<open>transferOwnership\<close> is owner-only, refuses the zero address and makes \<open>newOwner\<close> the
  owner; \<open>renounceOwnership\<close> is owner-only and leaves the contract without owner (the
  zero address). Neither touches the verifier set or any table of the registry.\<close>

definition transferOwnership_body :: "tx_context \<Rightarrow> address \<Rightarrow> state \<Rightarrow> state \<times> (revert_reason + unit)" where
  "transferOwnership_body env newOwner s =
     (if ownable_owner s \<noteq> msg_sender env then (s, Inl OwnableUnauthorizedAccount)
      else if newOwner = 0 then (s, Inl OwnableInvalidOwner)
      else (s\<lparr>ownable_owner := newOwner\<rparr>, Inr ()))"

definition transferOwnership :: "tx_context \<Rightarrow> address \<Rightarrow> state \<Rightarrow> state \<times> (revert_reason + unit)" where
  "transferOwnership env newOwner s = transaction s (transferOwnership_body env newOwner s)"

definition renounceOwnership_body :: "tx_context \<Rightarrow> state \<Rightarrow> state \<times> (revert_reason + unit)" where
  "renounceOwnership_body env s =
     (if ownable_owner s \<noteq> msg_sender env then (s, Inl OwnableUnauthorizedAccount)
      else (s\<lparr>ownable_owner := 0\<rparr>, Inr ()))"

definition renounceOwnership :: "tx_context \<Rightarrow> state \<Rightarrow> state \<times> (revert_reason + unit)" where
  "renounceOwnership env s = transaction s (renounceOwnership_body env s)"

definition changeAdmin_body :: "tx_context \<Rightarrow> address \<Rightarrow> state \<Rightarrow> state \<times> (revert_reason + unit)" where
  "changeAdmin_body env newAdmin s =
     (if ownable_owner s \<noteq> msg_sender env then (s, Inl OwnableUnauthorizedAccount)
      else if newAdmin = 0 then (s, Inl InvalidAddress)
      else
        let oldAdmin = adminWallet s;
            s1 = s\<lparr>adminWallet := newAdmin\<rparr>;
            s2 = (if \<not> verifiers s1 newAdmin
                  then emit (VerifierAdded newAdmin)
                         (s1\<lparr>verifiers := (verifiers s1)(newAdmin := True)\<rparr>)
                  else s1)
        in (emit (AdminChanged oldAdmin newAdmin) s2, Inr ()))"

definition changeAdmin :: "tx_context \<Rightarrow> address \<Rightarrow> state \<Rightarrow> state \<times> (revert_reason + unit)" where
  "changeAdmin env newAdmin s = transaction s (changeAdmin_body env newAdmin s)"

definition addVerifier_body :: "tx_context \<Rightarrow> address \<Rightarrow> state \<Rightarrow> state \<times> (revert_reason + unit)" where
  "addVerifier_body env verifier s =
     (if msg_sender env \<noteq> adminWallet s then (s, Inl CallerNotAdmin)
      else if verifier = 0 then (s, Inl InvalidAddress)
      else if verifiers s verifier then (s, Inl AlreadyVerifier)
      else
        let s1 = s\<lparr>verifiers := (verifiers s)(verifier := True)\<rparr>
        in (emit (VerifierAdded verifier) s1, Inr ()))"

definition addVerifier :: "tx_context \<Rightarrow> address \<Rightarrow> state \<Rightarrow> state \<times> (revert_reason + unit)" where
  "addVerifier env verifier s = transaction s (addVerifier_body env verifier s)"

definition removeVerifier_body :: "tx_context \<Rightarrow> address \<Rightarrow> state \<Rightarrow> state \<times> (revert_reason + unit)" where
  "removeVerifier_body env verifier s =
     (if msg_sender env \<noteq> adminWallet s then (s, Inl CallerNotAdmin)
      else if \<not> verifiers s verifier then (s, Inl NotVerifier)
      else if verifier = adminWallet s then (s, Inl CannotRemoveAdmin)
      else if verifier = ownable_owner s then (s, Inl CannotRemoveOwner)
      else
        let s1 = s\<lparr>verifiers := (verifiers s)(verifier := False)\<rparr>
        in (emit (VerifierRemoved verifier) s1, Inr ()))"

definition removeVerifier :: "tx_context \<Rightarrow> address \<Rightarrow> state \<Rightarrow> state \<times> (revert_reason + unit)" where
  "removeVerifier env verifier s = transaction s (removeVerifier_body env verifier s)"

subsection \<open>Requests\<close>

text \<open>The loop of \<open>requestIdentity\<close> over the caller's own request ids, oldest first:
  \<open>True\<close> when it reaches the \<open>revert\<close>.\<close>

fun hash_pending :: "(uint256 \<Rightarrow> IDRequest) \<Rightarrow> bytes32 \<Rightarrow> uint256 list \<Rightarrow> bool" where
  "hash_pending reqs uniqueHash [] = False"
| "hash_pending reqs uniqueHash (reqId # rest) =
     (if isPending (reqs reqId) \<and> req_uniqueIdentityHash (reqs reqId) = uniqueHash then True
      else hash_pending reqs uniqueHash rest)"

definition requestIdentity_body ::
  "tx_context \<Rightarrow> string \<Rightarrow> string \<Rightarrow> bytes32 \<Rightarrow> state \<Rightarrow> state \<times> (revert_reason + uint256)" where
  "requestIdentity_body env ipfs idty uniqueHash s =
     (if hasIdentity s (msg_sender env) then (s, Inl WalletAlreadyHasID)
      else if isHashRegistered s uniqueHash then (s, Inl HashAlreadyExists)
      else if hash_pending (idRequests s) uniqueHash (userRequests s (msg_sender env))
        then (s, Inl RequestAlreadyPending)
      else
        case checked_add (requestCounter s) 1 of
          None \<Rightarrow> (s, Inl ArithmeticPanic)
        | Some c \<Rightarrow>
            let s1 = s\<lparr>requestCounter := c\<rparr>;
                requestId = requestCounter s1;
                s2 = s1\<lparr>idRequests := (idRequests s1)(requestId :=
                       \<lparr>requester = msg_sender env, req_ipfsHash = ipfs,
                        requestedAt = block_timestamp env,
                        req_uniqueIdentityHash = uniqueHash,
                        isPending = True, isApproved = False, isRejected = False\<rparr>)\<rparr>;
                s3 = s2\<lparr>userRequests := (userRequests s2)(msg_sender env :=
                       userRequests s2 (msg_sender env) @ [requestId])\<rparr>
            in (emit (IDRequested requestId (msg_sender env) uniqueHash) s3, Inr requestId))"

definition requestIdentity ::
  "tx_context \<Rightarrow> string \<Rightarrow> string \<Rightarrow> bytes32 \<Rightarrow> state \<Rightarrow> state \<times> (revert_reason + uint256)" where
  "requestIdentity env ipfs idty uniqueHash s =
     transaction s (requestIdentity_body env ipfs idty uniqueHash s)"

definition approveIDRequest_body ::
  "tx_context \<Rightarrow> uint256 \<Rightarrow> uint256 \<Rightarrow> state \<Rightarrow> state \<times> (revert_reason + uint256)" where
  "approveIDRequest_body env requestId expiryDuration s =
     (if msg_sender env \<noteq> adminWallet s then (s, Inl CallerNotAdmin)
      else if requester (idRequests s requestId) = 0 then (s, Inl RequestDoesNotExist)
      else if \<not> isPending (idRequests s requestId) then (s, Inl RequestNotPending)
      else
        let requester' = requester (idRequests s requestId);
            ipfs = req_ipfsHash (idRequests s requestId);
            uniqueHash = req_uniqueIdentityHash (idRequests s requestId)
        in
        if hasIdentity s requester' then (s, Inl RequesterAlreadyHasID)
        else if isHashRegistered s uniqueHash then (s, Inl HashAlreadyExists)
        else
          case checked_add (idCounter s) 1 of
            None \<Rightarrow> (s, Inl ArithmeticPanic)
          | Some c \<Rightarrow>
              let s1 = s\<lparr>idCounter := c\<rparr>;
                  idNumber = idCounter s1
              in
              case (if expiryDuration > 0
                    then checked_add (block_timestamp env) expiryDuration else Some 0) of
                None \<Rightarrow> (s1, Inl ArithmeticPanic)
              | Some expires \<Rightarrow>
                  let s2 = s1\<lparr>identities := (identities s1)(idNumber :=
                         \<lparr>owner = requester', ipfsHash = ipfs,
                          createdAt = block_timestamp env, expiresAt = expires,
                          isVerified = True, idType = ''personal_id'',
                          uniqueIdentityHash = uniqueHash\<rparr>)\<rparr>;
                      s3 = s2\<lparr>walletToId := (walletToId s2)(requester' := idNumber)\<rparr>;
                      s4 = s3\<lparr>hashToId := (hashToId s3)(uniqueHash := idNumber)\<rparr>;
                      s5 = s4\<lparr>idRequests := (idRequests s4)(requestId :=
                             (idRequests s4 requestId)\<lparr>isPending := False\<rparr>)\<rparr>;
                      s6 = s5\<lparr>idRequests := (idRequests s5)(requestId :=
                             (idRequests s5 requestId)\<lparr>isApproved := True\<rparr>)\<rparr>;
                      s7 = emit (IDRequestApproved requestId idNumber (msg_sender env)) s6
                  in (emit (IdentityCreated idNumber requester' ''personal_id'' uniqueHash) s7,
                      Inr idNumber))"

definition approveIDRequest ::
  "tx_context \<Rightarrow> uint256 \<Rightarrow> uint256 \<Rightarrow> state \<Rightarrow> state \<times> (revert_reason + uint256)" where
  "approveIDRequest env requestId expiryDuration s =
     transaction s (approveIDRequest_body env requestId expiryDuration s)"

definition rejectIDRequest_body ::
  "tx_context \<Rightarrow> uint256 \<Rightarrow> string \<Rightarrow> state \<Rightarrow> state \<times> (revert_reason + unit)" where
  "rejectIDRequest_body env requestId reason s =
     (if msg_sender env \<noteq> adminWallet s then (s, Inl CallerNotAdmin)
      else if requester (idRequests s requestId) = 0 then (s, Inl RequestDoesNotExist)
      else if \<not> isPending (idRequests s requestId) then (s, Inl RequestNotPending)
      else
        let s1 = s\<lparr>idRequests := (idRequests s)(requestId :=
                   (idRequests s requestId)\<lparr>isPending := False\<rparr>)\<rparr>;
            s2 = s1\<lparr>idRequests := (idRequests s1)(requestId :=
                   (idRequests s1 requestId)\<lparr>isRejected := True\<rparr>)\<rparr>
        in (emit (IDRequestRejected requestId (msg_sender env) reason) s2, Inr ()))"

definition rejectIDRequest ::
  "tx_context \<Rightarrow> uint256 \<Rightarrow> string \<Rightarrow> state \<Rightarrow> state \<times> (revert_reason + unit)" where
  "rejectIDRequest env requestId reason s =
     transaction s (rejectIDRequest_body env requestId reason s)"

subsection \<open>Identities\<close>

definition createIdentity_body ::
  "tx_context \<Rightarrow> address \<Rightarrow> string \<Rightarrow> uint256 \<Rightarrow> string \<Rightarrow> bytes32 \<Rightarrow> state
     \<Rightarrow> state \<times> (revert_reason + uint256)" where
  "createIdentity_body env owner' ipfs expiryDuration idty uniqueHash s =
     (if msg_sender env \<noteq> adminWallet s then (s, Inl CallerNotAdmin)
      else if hasIdentity s owner' then (s, Inl WalletAlreadyHasIDMinted)
      else if isHashRegistered s uniqueHash then (s, Inl UniqueHashAlreadyExists)
      else
        case checked_add (idCounter s) 1 of
          None \<Rightarrow> (s, Inl ArithmeticPanic)
        | Some c \<Rightarrow>
            let s1 = s\<lparr>idCounter := c\<rparr>;
                idNumber = idCounter s1
            in
            case (if expiryDuration > 0
                  then checked_add (block_timestamp env) expiryDuration else Some 0) of
              None \<Rightarrow> (s1, Inl ArithmeticPanic)
            | Some expires \<Rightarrow>
                let s2 = s1\<lparr>identities := (identities s1)(idNumber :=
                       \<lparr>owner = owner', ipfsHash = ipfs,
                        createdAt = block_timestamp env, expiresAt = expires,
                        isVerified = True, idType = idty,
                        uniqueIdentityHash = uniqueHash\<rparr>)\<rparr>;
                    s3 = s2\<lparr>walletToId := (walletToId s2)(owner' := idNumber)\<rparr>;
                    s4 = s3\<lparr>hashToId := (hashToId s3)(uniqueHash := idNumber)\<rparr>
                in (emit (IdentityCreated idNumber owner' idty uniqueHash) s4, Inr idNumber))"

definition createIdentity ::
  "tx_context \<Rightarrow> address \<Rightarrow> string \<Rightarrow> uint256 \<Rightarrow> string \<Rightarrow> bytes32 \<Rightarrow> state
     \<Rightarrow> state \<times> (revert_reason + uint256)" where
  "createIdentity env owner' ipfs expiryDuration idty uniqueHash s =
     transaction s (createIdentity_body env owner' ipfs expiryDuration idty uniqueHash s)"

definition verifyIdentity_body :: "tx_context \<Rightarrow> uint256 \<Rightarrow> state \<Rightarrow> state \<times> (revert_reason + unit)" where
  "verifyIdentity_body env idNumber s =
     (if \<not> verifiers s (msg_sender env) then (s, Inl CallerNotVerifier)
      else if owner (identities s idNumber) = 0 then (s, Inl IdentityDoesNotExist)
      else if isVerified (identities s idNumber) then (s, Inl IdentityAlreadyVerified)
      else
        let s1 = s\<lparr>identities := (identities s)(idNumber :=
                   (identities s idNumber)\<lparr>isVerified := True\<rparr>)\<rparr>
        in (emit (IdentityVerified idNumber (msg_sender env)) s1, Inr ()))"

definition verifyIdentity :: "tx_context \<Rightarrow> uint256 \<Rightarrow> state \<Rightarrow> state \<times> (revert_reason + unit)" where
  "verifyIdentity env idNumber s = transaction s (verifyIdentity_body env idNumber s)"

definition revokeIdentity_body :: "tx_context \<Rightarrow> uint256 \<Rightarrow> state \<Rightarrow> state \<times> (revert_reason + unit)" where
  "revokeIdentity_body env idNumber s =
     (if owner (identities s idNumber) = 0 then (s, Inl IdentityDoesNotExist)
      else if \<not> (owner (identities s idNumber) = msg_sender env \<or> verifiers s (msg_sender env)
                 \<or> ownable_owner s = msg_sender env \<or> msg_sender env = adminWallet s)
        then (s, Inl CallerNotAuthorized)
      else
        let s1 = s\<lparr>walletToId := (walletToId s)(owner (identities s idNumber) := 0)\<rparr>;
            s2 = s1\<lparr>hashToId := (hashToId s1)(uniqueIdentityHash (identities s1 idNumber) := 0)\<rparr>;
            s3 = s2\<lparr>identities := (identities s2)(idNumber := empty_identity)\<rparr>
        in (emit (IdentityRevoked idNumber (msg_sender env)) s3, Inr ()))"

definition revokeIdentity :: "tx_context \<Rightarrow> uint256 \<Rightarrow> state \<Rightarrow> state \<times> (revert_reason + unit)" where
  "revokeIdentity env idNumber s = transaction s (revokeIdentity_body env idNumber s)"

definition updateIdentityData_body ::
  "tx_context \<Rightarrow> uint256 \<Rightarrow> string \<Rightarrow> state \<Rightarrow> state \<times> (revert_reason + unit)" where
  "updateIdentityData_body env idNumber newIpfsHash s =
     (if owner (identities s idNumber) = 0 then (s, Inl IdentityDoesNotExist)
      else if \<not> (owner (identities s idNumber) = msg_sender env \<or> msg_sender env = adminWallet s)
        then (s, Inl CallerNotOwnerOrAdmin)
      else
        (s\<lparr>identities := (identities s)(idNumber :=
             (identities s idNumber)\<lparr>ipfsHash := newIpfsHash\<rparr>)\<rparr>, Inr ()))"

definition updateIdentityData ::
  "tx_context \<Rightarrow> uint256 \<Rightarrow> string \<Rightarrow> state \<Rightarrow> state \<times> (revert_reason + unit)" where
  "updateIdentityData env idNumber newIpfsHash s =
     transaction s (updateIdentityData_body env idNumber newIpfsHash s)"

subsection \<open>Sequences of calls\<close>

text \<open>The ten state-changing functions of the source and the two inherited ownership
  calls as one type of calls; \<open>exec\<close> runs one and keeps the storage and the revert
  reason, if any.\<close>

datatype call =
    ChangeAdmin address
  | AddVerifier address
  | RemoveVerifier address
  | RequestIdentity string string bytes32
  | ApproveIDRequest uint256 uint256
  | RejectIDRequest uint256 string
  | CreateIdentity address string uint256 string bytes32
  | UpdateIdentityData uint256 string
  | VerifyIdentity uint256
  | RevokeIdentity uint256
  | TransferOwnership address
  | RenounceOwnership

definition outcome :: "state \<times> (revert_reason + 'a) \<Rightarrow> state \<times> revert_reason option" where
  "outcome r = (fst r, case snd r of Inl e \<Rightarrow> Some e | Inr v \<Rightarrow> None)"

fun exec :: "tx_context \<Rightarrow> call \<Rightarrow> state \<Rightarrow> state \<times> revert_reason option" where
  "exec env (ChangeAdmin newAdmin) s = outcome (changeAdmin env newAdmin s)"
| "exec env (AddVerifier verifier) s = outcome (addVerifier env verifier s)"
| "exec env (RemoveVerifier verifier) s = outcome (removeVerifier env verifier s)"
| "exec env (RequestIdentity ipfs idty uniqueHash) s =
     outcome (requestIdentity env ipfs idty uniqueHash s)"
| "exec env (ApproveIDRequest requestId expiryDuration) s =
     outcome (approveIDRequest env requestId expiryDuration s)"
| "exec env (RejectIDRequest requestId reason) s = outcome (rejectIDRequest env requestId reason s)"
| "exec env (CreateIdentity owner' ipfs expiryDuration idty uniqueHash) s =
     outcome (createIdentity env owner' ipfs expiryDuration idty uniqueHash s)"
| "exec env (UpdateIdentityData idNumber newIpfsHash) s =
     outcome (updateIdentityData env idNumber newIpfsHash s)"
| "exec env (VerifyIdentity idNumber) s = outcome (verifyIdentity env idNumber s)"
| "exec env (RevokeIdentity idNumber) s = outcome (revokeIdentity env idNumber s)"
| "exec env (TransferOwnership newOwner) s = outcome (transferOwnership env newOwner s)"
| "exec env RenounceOwnership s = outcome (renounceOwnership env s)"

text \<open>The states the registry can be in: the one the constructor leaves, and every state
  a call leaves from one of them, whoever calls and whenever.\<close>

inductive reachable :: "state \<Rightarrow> bool" where
  deployed: "reachable (constructor env adminWallet')"
| called: "reachable s \<Longrightarrow> reachable (fst (exec env c s))"

subsection \<open>Invariants\<close>

text \<open>An Identity exists under a number when its owner is not the zero address: the
  test every function of the source makes.\<close>

definition identity_exists :: "state \<Rightarrow> uint256 \<Rightarrow> bool" where
  "identity_exists s idNumber = (owner (identities s idNumber) \<noteq> 0)"

text \<open>The admin is a verifier. (The owner need not be: a new owner is not made one.)\<close>

definition roles_inv :: "state \<Rightarrow> bool" where
  "roles_inv s = verifiers s (adminWallet s)"

text \<open>Every existing Identity is verified.\<close>

definition verified_inv :: "state \<Rightarrow> bool" where
  "verified_inv s = (\<forall>k. identity_exists s k \<longrightarrow> isVerified (identities s k))"

text \<open>No Identity exists above the ID counter, nor under the number 0.\<close>

definition fresh_inv :: "state \<Rightarrow> bool" where
  "fresh_inv s =
     (\<not> identity_exists s 0 \<and> (\<forall>k. idCounter s < k \<longrightarrow> \<not> identity_exists s k))"

text \<open>The agreement of the two uniqueness indexes with the Identity ledger, in the
  words of the specification: a non-zero index entry points to an existing Identity
  with that owner or fingerprint, and every existing Identity is indexed under its
  owner and under its fingerprint. It makes the owner, and the fingerprint, determine
  the Identity.\<close>

definition indexes_agree :: "state \<Rightarrow> bool" where
  "indexes_agree s =
     ((\<forall>a. walletToId s a \<noteq> 0 \<longrightarrow>
           identity_exists s (walletToId s a) \<and> owner (identities s (walletToId s a)) = a) \<and>
      (\<forall>h. hashToId s h \<noteq> 0 \<longrightarrow>
           identity_exists s (hashToId s h) \<and>
           uniqueIdentityHash (identities s (hashToId s h)) = h) \<and>
      (\<forall>k. identity_exists s k \<longrightarrow>
           walletToId s (owner (identities s k)) = k \<and>
           hashToId s (uniqueIdentityHash (identities s k)) = k))"

subsection \<open>Concrete runs\<close>

definition call_by :: "address \<Rightarrow> uint256 \<Rightarrow> tx_context" where
  "call_by a t = \<lparr>msg_sender = a, block_timestamp = t\<rparr>"

definition deployer :: address where "deployer = 1"
definition admin_addr :: address where "admin_addr = 2"
definition alice :: address where "alice = 3"
definition bob :: address where "bob = 4"

text \<open>The registry as deployed by \<open>deployer\<close> with \<open>admin_addr\<close> as admin.\<close>

definition genesis :: state where
  "genesis = constructor (call_by deployer 1000) admin_addr"

text \<open>Alice asks for an Identity with fingerprint 7.\<close>

definition alice_asked :: state where
  "alice_asked = fst (requestIdentity (call_by alice 1000) ''meta'' ''passport'' 7 genesis)"

text \<open>The admin approves Alice's request, without expiry.\<close>

definition alice_approved :: state where
  "alice_approved = fst (approveIDRequest (call_by admin_addr 1100) 1 0 alice_asked)"

text \<open>Instead, the admin creates Alice's Identity directly while her request is pending,
  for one hour, and then revokes it.\<close>

definition alice_created :: state where
  "alice_created =
     fst (createIdentity (call_by admin_addr 1100) alice ''meta'' 3600 ''passport'' 7 alice_asked)"

definition alice_revoked :: state where
  "alice_revoked = fst (revokeIdentity (call_by admin_addr 1200) 1 alice_created)"

text \<open>After the approval, Alice revokes her Identity and asks again with the same
  fingerprint.\<close>

definition alice_approved_revoked :: state where
  "alice_approved_revoked = fst (revokeIdentity (call_by alice 1200) 1 alice_approved)"

definition alice_asked_again :: state where
  "alice_asked_again =
     fst (requestIdentity (call_by alice 1300) ''meta'' ''passport'' 7 alice_approved_revoked)"

text \<open>The deployer hands the ownership of the contract to Bob.\<close>

definition owner_transferred :: state where
  "owner_transferred = fst (transferOwnership (call_by deployer 1050) bob genesis)"

text \<open>The admin creates an Identity for the zero address, with fingerprint 7.\<close>

definition zero_owner_created :: state where
  "zero_owner_created =
     fst (createIdentity (call_by admin_addr 1100) 0 ''meta'' 0 ''passport'' 7 genesis)"

text \<open>\<open>n\<close> rounds of Alice asking and the admin rejecting: each round uses up one
  request id and leaves no request pending.\<close>

fun rounds :: "nat \<Rightarrow> state" where
  "rounds 0 = genesis"
| "rounds (Suc n) =
     fst (rejectIDRequest (call_by admin_addr 1000) (of_nat (Suc n)) ''no''
       (fst (requestIdentity (call_by alice 1000) ''meta'' ''passport'' 7 (rounds n))))"

text \<open>The registry after \<open>2 ^ 256 - 1\<close> such rounds.\<close>

definition exhausted :: state where
  "exhausted = rounds (2 ^ 256 - 1)"

text \<open>A list of calls, run in order from a state; reverted calls leave it as it is.\<close>

fun run :: "(tx_context \<times> call) list \<Rightarrow> state \<Rightarrow> state" where
  "run [] s = s"
| "run (ec # cs) s = run cs (fst (exec (fst ec) (snd ec) s))"

text \<open>The calls that ask \<open>createIdentity\<close> for an Identity owned by the zero address.\<close>

fun creates_for_zero :: "call \<Rightarrow> bool" where
  "creates_for_zero (CreateIdentity owner' ipfs expiryDuration idty uniqueHash) = (owner' = 0)"
| "creates_for_zero c = False"

section \<open>Properties\<close>

subsection \<open>Auxiliary facts\<close>

lemmas call_defs =
  changeAdmin_def changeAdmin_body_def addVerifier_def addVerifier_body_def
  removeVerifier_def removeVerifier_body_def requestIdentity_def requestIdentity_body_def
  approveIDRequest_def approveIDRequest_body_def rejectIDRequest_def rejectIDRequest_body_def
  createIdentity_def createIdentity_body_def verifyIdentity_def verifyIdentity_body_def
  revokeIdentity_def revokeIdentity_body_def updateIdentityData_def updateIdentityData_body_def
  transferOwnership_def transferOwnership_body_def renounceOwnership_def renounceOwnership_body_def
  transaction_def emit_def hasIdentity_def isHashRegistered_def Let_def

lemmas run_defs =
  call_by_def deployer_def admin_addr_def alice_def bob_def genesis_def constructor_def
  empty_identity_def empty_request_def

lemma unat_max_uint256: "unat (- 1 :: uint256) = 2 ^ 256 - 1"
  by (simp add: unsigned_minus_1_eq_mask mask_eq_exp_minus_1)

lemma checked_add_inc: "checked_add a 1 = (if a = - 1 then None else Some (a + 1))"
proof (cases "a = - 1")
  case True
  then show ?thesis by (simp add: checked_add_def unat_max_uint256)
next
  case False
  have "unat a < 2 ^ 256" using unsigned_less[of a, where ?'a = nat] by simp
  moreover have "unat a \<noteq> 2 ^ 256 - 1"
  proof
    assume "unat a = 2 ^ 256 - 1"
    then have "unat a = unat (- 1 :: uint256)" by (simp only: unat_max_uint256)
    then have "a = - 1" by (simp only: word_unat_eq_iff)
    with False show False by simp
  qed
  ultimately have "unat a + 1 < 2 ^ 256" by simp
  with False show ?thesis by (simp add: checked_add_def)
qed

lemma inc_less: "a \<noteq> - 1 \<Longrightarrow> (a :: uint256) < a + 1"
  using inc_less_eq_triv_imp[of a] by (auto simp: not_le[symmetric])

lemma inc_nonzero: "a \<noteq> - 1 \<Longrightarrow> (a :: uint256) + 1 \<noteq> 0"
  using max_word_wrap[of a] by blast

lemma transaction_revert: "transaction s r = (s', Inl e) \<Longrightarrow> s' = s"
  by (auto simp: transaction_def split: sum.splits)

lemma alice_created_1:
  "identities alice_created 1 =
     \<lparr>owner = alice, ipfsHash = ''meta'', createdAt = 1100, expiresAt = 4700,
      isVerified = True, idType = ''passport'', uniqueIdentityHash = 7\<rparr>"
  by (simp add: alice_created_def alice_asked_def call_defs run_defs checked_add_def)

lemma alice_created_2: "identities alice_created 2 = empty_identity"
  by (simp add: alice_created_def alice_asked_def call_defs run_defs checked_add_def)

text \<open>Without the transaction around it, the body of \<open>createIdentity\<close> stops at an
  overflowing expiry with the ID counter already incremented.\<close>

lemma createIdentity_body_overflow:
  "createIdentity_body (call_by admin_addr 1100) bob ''meta'' (- 1) ''passport'' 9 alice_asked =
     (alice_asked\<lparr>idCounter := 1\<rparr>, Inl ArithmeticPanic)"
  by (simp add: alice_asked_def call_defs run_defs checked_add_def unat_max_uint256 word_gt_0)

subsection \<open>Invariants of the reachable states\<close>

lemma roles_inv_constructor: "roles_inv (constructor env a)"
  by (simp add: roles_inv_def constructor_def)

lemma roles_inv_exec: "roles_inv s \<Longrightarrow> roles_inv (fst (exec env c s))"
  by (cases c) (auto simp: roles_inv_def outcome_def call_defs split: sum.splits option.splits)

lemma reachable_roles_inv: "reachable s \<Longrightarrow> roles_inv s"
  by (induction rule: reachable.induct) (simp_all add: roles_inv_constructor roles_inv_exec)

lemma verified_inv_constructor: "verified_inv (constructor env a)"
  by (simp add: verified_inv_def identity_exists_def constructor_def empty_identity_def)

lemma verified_inv_exec: "verified_inv s \<Longrightarrow> verified_inv (fst (exec env c s))"
  by (cases c) (auto simp: verified_inv_def identity_exists_def outcome_def call_defs empty_identity_def
      split: sum.splits option.splits)

lemma reachable_verified_inv: "reachable s \<Longrightarrow> verified_inv s"
  by (induction rule: reachable.induct) (simp_all add: verified_inv_constructor verified_inv_exec)

lemma fresh_inv_constructor: "fresh_inv (constructor env a)"
  by (simp add: fresh_inv_def identity_exists_def constructor_def empty_identity_def)

lemma less_inc_trans: "a \<noteq> - 1 \<Longrightarrow> a + 1 < k \<Longrightarrow> (a :: uint256) < k"
  using inc_less[of a] by simp

lemma fresh_inv_exec: "fresh_inv s \<Longrightarrow> fresh_inv (fst (exec env c s))"
  by (cases c) (auto simp: fresh_inv_def identity_exists_def outcome_def call_defs checked_add_inc
      inc_nonzero empty_identity_def
      dest: less_inc_trans split: sum.splits option.splits if_splits)

lemma reachable_fresh_inv: "reachable s \<Longrightarrow> fresh_inv s"
  by (induction rule: reachable.induct) (simp_all add: fresh_inv_constructor fresh_inv_exec)

subsection \<open>The concrete runs are reachable\<close>

lemma reachable_call: "reachable s \<Longrightarrow> s' = fst (exec env c s) \<Longrightarrow> reachable s'"
  by (simp add: reachable.called)

lemma reachable_genesis: "reachable genesis"
  by (simp add: genesis_def reachable.deployed)

lemma reachable_alice_asked: "reachable alice_asked"
  by (rule reachable_call[OF reachable_genesis,
        where env = "call_by alice 1000" and c = "RequestIdentity ''meta'' ''passport'' 7"])
     (simp add: alice_asked_def outcome_def)

lemma reachable_alice_approved: "reachable alice_approved"
  by (rule reachable_call[OF reachable_alice_asked,
        where env = "call_by admin_addr 1100" and c = "ApproveIDRequest 1 0"])
     (simp add: alice_approved_def outcome_def)

lemma reachable_alice_created: "reachable alice_created"
  by (rule reachable_call[OF reachable_alice_asked,
        where env = "call_by admin_addr 1100"
          and c = "CreateIdentity alice ''meta'' 3600 ''passport'' 7"])
     (simp add: alice_created_def outcome_def)

lemma reachable_alice_revoked: "reachable alice_revoked"
  by (rule reachable_call[OF reachable_alice_created,
        where env = "call_by admin_addr 1200" and c = "RevokeIdentity 1"])
     (simp add: alice_revoked_def outcome_def)

lemma alice_approved_1:
  "identities alice_approved 1 =
     \<lparr>owner = alice, ipfsHash = ''meta'', createdAt = 1100, expiresAt = 0,
      isVerified = True, idType = ''personal_id'', uniqueIdentityHash = 7\<rparr>"
  by (simp add: alice_approved_def alice_asked_def call_defs run_defs checked_add_def)

subsection \<open>Validity check\<close>

text \<open>
  Claim C4. For every ID number and every state, \<open>isIdentityValid\<close> (the specification's
  \<open>isValid\<close>) returns true if and only if an Identity exists under the number (its owner is
  not the zero address), its \<open>isVerified\<close> field is true, and its \<open>expiresAt\<close> is the zero
  no-expiry sentinel or the current time is at most \<open>expiresAt\<close>. The function has no
  revert path (its model is a total function to \<open>bool\<close>), so it returns false, and no
  error, for a non-existent ID, for an unverified one and for one whose positive
  \<open>expiresAt\<close> is in the past.
\<close>

theorem isIdentityValid_iff:
  "isIdentityValid env s i \<longleftrightarrow>
     owner (identities s i) \<noteq> 0 \<and> isVerified (identities s i) \<and>
     (expiresAt (identities s i) = 0 \<or> block_timestamp env \<le> expiresAt (identities s i))"
  by (auto simp: isIdentityValid_def Let_def word_gt_0 not_less)

text \<open>Alice's Identity, created at 1100 for 3600 seconds, is valid at 4700 and no longer
  at 4701; number 2 holds no Identity.\<close>

theorem isIdentityValid_iff_witness:
  "isIdentityValid (call_by bob 4700) alice_created 1 \<and>
   \<not> isIdentityValid (call_by bob 4701) alice_created 1 \<and>
   \<not> isIdentityValid (call_by bob 4700) alice_created 2"
  using isIdentityValid_iff[of "call_by bob 4700" alice_created 1]
    isIdentityValid_iff[of "call_by bob 4701" alice_created 1]
    isIdentityValid_iff[of "call_by bob 4700" alice_created 2]
  by (simp add: alice_created_1 alice_created_2 call_by_def alice_def empty_identity_def)

subsection \<open>The declared ID type of a request\<close>

text \<open>
  Claim C10. The \<open>idType\<close> argument of \<open>requestIdentity\<close> (the specification's
  \<open>submitRequest\<close>) has no influence: for every state and caller, two calls that differ
  only in it give the same resulting state and the same return value or revert. The
  stored \<open>IDRequest\<close> has no \<open>idType\<close> field, so nothing later can depend on it.
\<close>

theorem requestIdentity_idType_irrelevant:
  "requestIdentity env ipfs idty1 uniqueHash s = requestIdentity env ipfs idty2 uniqueHash s"
  by (simp add: requestIdentity_def requestIdentity_body_def)

subsection \<open>Atomicity\<close>

text \<open>
  Claim C7. Each of the ten state-changing calls (\<open>changeAdmin\<close>, \<open>addVerifier\<close>,
  \<open>removeVerifier\<close>, \<open>requestIdentity\<close>, \<open>approveIDRequest\<close>, \<open>rejectIDRequest\<close>,
  \<open>createIdentity\<close>, \<open>updateIdentityData\<close>, \<open>verifyIdentity\<close>, \<open>revokeIdentity\<close>) is atomic:
  whenever it raises an error, the whole registry state, every table, the role store and
  the event log, is exactly as it was before the call. The same holds of the two
  inherited ownership calls.
\<close>

theorem exec_atomic: "exec env c s = (s', Some e) \<Longrightarrow> s' = s"
  by (cases c) (auto simp: outcome_def call_defs split: sum.splits if_splits option.splits)

text \<open>A direct creation whose expiry overflows reverts after its body has incremented the
  ID counter; the state is the one before the call.\<close>

theorem exec_atomic_witness:
  "snd (exec (call_by admin_addr 1100) (CreateIdentity bob ''meta'' (- 1) ''passport'' 9) alice_asked)
     = Some ArithmeticPanic \<and>
   fst (exec (call_by admin_addr 1100) (CreateIdentity bob ''meta'' (- 1) ''passport'' 9) alice_asked)
     = alice_asked"
proof -
  let ?r = "exec (call_by admin_addr 1100) (CreateIdentity bob ''meta'' (- 1) ''passport'' 9) alice_asked"
  have e: "snd ?r = Some ArithmeticPanic"
    by (simp add: outcome_def createIdentity_def transaction_def createIdentity_body_overflow)
  then have "?r = (fst ?r, Some ArithmeticPanic)"
    by (simp add: prod_eq_iff)
  from exec_atomic[OF this] e show ?thesis by simp
qed

subsection \<open>Roles\<close>

text \<open>
  Claim C9. In every reachable state the current admin address is a member of the
  verifier set: the constructor grants verifier status to the initial admin,
  \<open>changeAdmin\<close> grants it to the new admin if absent, and \<open>removeVerifier\<close> refuses to
  remove the current admin, so every call, the two ownership calls included, preserves
  the membership.
\<close>

theorem admin_is_verifier: "reachable s \<Longrightarrow> verifiers s (adminWallet s)"
  using reachable_roles_inv[of s] by (simp add: roles_inv_def)

text \<open>After the owner has made Bob the admin, Bob is a verifier.\<close>

theorem admin_is_verifier_witness:
  "reachable (fst (exec (call_by deployer 1050) (ChangeAdmin bob) genesis)) \<and>
   adminWallet (fst (exec (call_by deployer 1050) (ChangeAdmin bob) genesis)) = bob \<and>
   verifiers (fst (exec (call_by deployer 1050) (ChangeAdmin bob) genesis)) bob"
proof -
  let ?s = "fst (exec (call_by deployer 1050) (ChangeAdmin bob) genesis)"
  have r: "reachable ?s" by (rule reachable.called[OF reachable_genesis])
  have a: "adminWallet ?s = bob" by (simp add: outcome_def call_defs run_defs)
  from admin_is_verifier[OF r] r a show ?thesis by simp
qed

lemma removeVerifier_result:
  "addr = adminWallet s \<or> addr = ownable_owner s \<Longrightarrow>
   removeVerifier env addr s =
     (s, Inl (if msg_sender env \<noteq> adminWallet s then CallerNotAdmin
              else if \<not> verifiers s addr then NotVerifier
              else if addr = adminWallet s then CannotRemoveAdmin
              else CannotRemoveOwner))"
  by (auto simp: call_defs)

lemma reachable_owner_transferred: "reachable owner_transferred"
  by (rule reachable_call[OF reachable_genesis,
        where env = "call_by deployer 1050" and c = "TransferOwnership bob"])
     (simp add: owner_transferred_def outcome_def)

lemma owner_transferred_eq: "owner_transferred = genesis\<lparr>ownable_owner := bob\<rparr>"
  by (simp add: owner_transferred_def call_defs run_defs)

text \<open>
  Claim C6, as stated: for every caller and state, \<open>removeVerifier\<close> of the current admin
  address or of the contract owner address fails with an \<open>AuthorizationError\<close>. It does not
  after the deployer has transferred the ownership to Bob, who is no verifier: the
  admin's \<open>removeVerifier\<close> of Bob, now the owner, reverts with "not a verifier", which is
  no \<open>AuthorizationError\<close>.
\<close>

theorem removeVerifier_new_owner_not_verifier:
  "reachable owner_transferred \<and> ownable_owner owner_transferred = bob \<and>
   msg_sender (call_by admin_addr 1100) = adminWallet owner_transferred \<and>
   removeVerifier (call_by admin_addr 1100) bob owner_transferred =
     (owner_transferred, Inl NotVerifier) \<and>
   kind_of NotVerifier \<noteq> AuthorizationError"
  using reachable_owner_transferred
  by (simp add: owner_transferred_eq call_defs) (simp add: run_defs)

text \<open>
  Claim C6, amended. For every caller and every state, reachable or not, \<open>removeVerifier\<close>
  of the current admin address or of the contract owner address fails and leaves the
  state, hence the verifier set, unchanged: neither can be stripped of verifier status
  through this call. The failure is an \<open>AuthorizationError\<close> whenever the caller is not the
  admin or the address is a verifier (caller is not the admin, cannot remove the admin,
  cannot remove the owner), which in every reachable state covers the current admin
  address; when the admin asks it for an address that is no verifier, as an owner after a
  transfer of ownership can be, the failure is the revert "not a verifier".
\<close>

theorem removeVerifier_admin_or_owner:
  assumes "addr = adminWallet s \<or> addr = ownable_owner s"
  shows "removeVerifier env addr s =
           (s, Inl (if msg_sender env \<noteq> adminWallet s then CallerNotAdmin
                    else if \<not> verifiers s addr then NotVerifier
                    else if addr = adminWallet s then CannotRemoveAdmin
                    else CannotRemoveOwner)) \<and>
         kind_of CallerNotAdmin = AuthorizationError \<and>
         kind_of CannotRemoveAdmin = AuthorizationError \<and>
         kind_of CannotRemoveOwner = AuthorizationError \<and>
         (msg_sender env \<noteq> adminWallet s \<or> verifiers s addr \<longrightarrow>
            (\<exists>e. removeVerifier env addr s = (s, Inl e) \<and> kind_of e = AuthorizationError)) \<and>
         (reachable s \<and> addr = adminWallet s \<longrightarrow>
            (\<exists>e. removeVerifier env addr s = (s, Inl e) \<and> kind_of e = AuthorizationError))"
proof -
  note r = removeVerifier_result[OF assms, of env]
  have a: "msg_sender env \<noteq> adminWallet s \<or> verifiers s addr \<longrightarrow>
      (\<exists>e. removeVerifier env addr s = (s, Inl e) \<and> kind_of e = AuthorizationError)"
    by (auto simp: r)
  have "reachable s \<and> addr = adminWallet s \<longrightarrow> verifiers s addr"
    using reachable_roles_inv[of s] by (auto simp: roles_inv_def)
  with a have b: "reachable s \<and> addr = adminWallet s \<longrightarrow>
      (\<exists>e. removeVerifier env addr s = (s, Inl e) \<and> kind_of e = AuthorizationError)"
    by blast
  from r a b show ?thesis by simp
qed

text \<open>Before any transfer the admin cannot remove the deployer, who owns the contract and
  is a verifier, nor itself; both refusals are authorization errors.\<close>

theorem removeVerifier_admin_or_owner_witness:
  "(deployer = adminWallet genesis \<or> deployer = ownable_owner genesis) \<and>
   removeVerifier (call_by admin_addr 1100) deployer genesis = (genesis, Inl CannotRemoveOwner) \<and>
   kind_of CannotRemoveOwner = AuthorizationError \<and>
   reachable genesis \<and> admin_addr = adminWallet genesis \<and>
   removeVerifier (call_by admin_addr 1100) admin_addr genesis = (genesis, Inl CannotRemoveAdmin) \<and>
   (\<exists>e. removeVerifier (call_by admin_addr 1100) admin_addr genesis = (genesis, Inl e) \<and>
        kind_of e = AuthorizationError)"
proof -
  have o: "deployer = adminWallet genesis \<or> deployer = ownable_owner genesis"
    by (simp add: run_defs)
  have ad: "admin_addr = adminWallet genesis \<or> admin_addr = ownable_owner genesis"
    "admin_addr = adminWallet genesis"
    by (simp_all add: run_defs)
  have g: "msg_sender (call_by admin_addr 1100) = adminWallet genesis"
    "verifiers genesis deployer" "verifiers genesis admin_addr" "deployer \<noteq> adminWallet genesis"
    by (simp_all add: run_defs)
  from removeVerifier_admin_or_owner[OF o, of "call_by admin_addr 1100"] g
  have d: "removeVerifier (call_by admin_addr 1100) deployer genesis =
      (genesis, Inl CannotRemoveOwner)"
    by simp
  from removeVerifier_admin_or_owner[OF ad(1), of "call_by admin_addr 1100"] g ad(2)
    reachable_genesis
  have a: "removeVerifier (call_by admin_addr 1100) admin_addr genesis =
      (genesis, Inl CannotRemoveAdmin)"
    "\<exists>e. removeVerifier (call_by admin_addr 1100) admin_addr genesis = (genesis, Inl e) \<and>
        kind_of e = AuthorizationError"
    by simp_all
  from o d a ad(2) reachable_genesis show ?thesis by simp
qed

subsection \<open>Verification\<close>

text \<open>
  Claim C8. In every reachable state \<open>verifyIdentity\<close> (the specification's \<open>verify\<close>)
  succeeds for no caller and no ID number: both creation paths set \<open>isVerified\<close> and no
  call clears it, so the call fails with an \<open>AuthorizationError\<close> if the caller is not a
  verifier, else with a \<open>NotFoundError\<close> if no Identity exists under the number, else with
  an \<open>InvalidStateError\<close> (already verified).
\<close>

theorem verifyIdentity_never_succeeds:
  assumes "reachable s"
  shows "verifyIdentity env i s =
           (s, Inl (if \<not> verifiers s (msg_sender env) then CallerNotVerifier
                    else if owner (identities s i) = 0 then IdentityDoesNotExist
                    else IdentityAlreadyVerified)) \<and>
         kind_of CallerNotVerifier = AuthorizationError \<and>
         kind_of IdentityDoesNotExist = NotFoundError \<and>
         kind_of IdentityAlreadyVerified = InvalidStateError"
  using reachable_verified_inv[OF assms]
  by (auto simp: verified_inv_def identity_exists_def call_defs)

text \<open>On Alice's approved Identity the three failures, one per caller and number.\<close>

theorem verifyIdentity_never_succeeds_witness:
  "reachable alice_approved \<and>
   verifyIdentity (call_by admin_addr 1300) 1 alice_approved =
     (alice_approved, Inl IdentityAlreadyVerified) \<and>
   verifyIdentity (call_by admin_addr 1300) 2 alice_approved =
     (alice_approved, Inl IdentityDoesNotExist) \<and>
   verifyIdentity (call_by alice 1300) 1 alice_approved =
     (alice_approved, Inl CallerNotVerifier)"
proof -
  have v: "verifiers alice_approved admin_addr" "\<not> verifiers alice_approved alice"
    by (simp_all add: alice_approved_def alice_asked_def call_defs run_defs checked_add_def)
  have o: "identities alice_approved 2 = empty_identity"
    by (simp add: alice_approved_def alice_asked_def call_defs run_defs checked_add_def)
  show ?thesis
    using verifyIdentity_never_succeeds[OF reachable_alice_approved, of "call_by admin_addr 1300" 1]
      verifyIdentity_never_succeeds[OF reachable_alice_approved, of "call_by admin_addr 1300" 2]
      verifyIdentity_never_succeeds[OF reachable_alice_approved, of "call_by alice 1300" 1]
      reachable_alice_approved v o
    by (simp add: alice_approved_1 call_by_def alice_def empty_identity_def)
qed

subsection \<open>Approval\<close>

text \<open>
  Claim C2. In every reachable state, a successful \<open>approveIDRequest\<close> (the specification's
  \<open>approveRequest\<close>) of a request is a call by the admin on a pending request, and it mints
  a new Identity, under the next ID number, where none existed: its owner is the
  request's requester, its \<open>isVerified\<close> is true and its \<open>idType\<close> is the constant
  \<open>personal_id\<close> (the request stores no ID type); both uniqueness indexes point to the new
  number; the request is marked approved and no longer pending; and two events are
  emitted, the request-approved event before the identity-created event.
\<close>

theorem approveIDRequest_mints:
  assumes "reachable s"
    and "approveIDRequest env requestId expiryDuration s = (s', Inr idNumber)"
  shows "msg_sender env = adminWallet s \<and> isPending (idRequests s requestId) \<and>
         idNumber = idCounter s + 1 \<and> idNumber \<noteq> 0 \<and> \<not> identity_exists s idNumber \<and>
         identities s' idNumber =
           \<lparr>owner = requester (idRequests s requestId),
            ipfsHash = req_ipfsHash (idRequests s requestId),
            createdAt = block_timestamp env,
            expiresAt = (if expiryDuration > 0 then block_timestamp env + expiryDuration else 0),
            isVerified = True, idType = ''personal_id'',
            uniqueIdentityHash = req_uniqueIdentityHash (idRequests s requestId)\<rparr> \<and>
         identity_exists s' idNumber \<and>
         walletToId s' (requester (idRequests s requestId)) = idNumber \<and>
         hashToId s' (req_uniqueIdentityHash (idRequests s requestId)) = idNumber \<and>
         \<not> isPending (idRequests s' requestId) \<and> isApproved (idRequests s' requestId) \<and>
         events s' = events s @
           [IDRequestApproved requestId idNumber (msg_sender env),
            IdentityCreated idNumber (requester (idRequests s requestId)) ''personal_id''
              (req_uniqueIdentityHash (idRequests s requestId))]"
proof -
  have c: "idCounter s \<noteq> - 1"
    using assms(2) by (auto simp: call_defs checked_add_inc split: if_splits)
  have fresh: "\<not> identity_exists s (idCounter s + 1)"
    using reachable_fresh_inv[OF assms(1)] inc_less[OF c] by (simp add: fresh_inv_def)
  show ?thesis
    using assms(2) c fresh inc_nonzero[OF c]
    by (auto simp: call_defs checked_add_inc checked_add_def identity_exists_def
        split: if_splits option.splits)
qed

lemma approve_alice:
  "approveIDRequest (call_by admin_addr 1100) 1 0 alice_asked = (alice_approved, Inr 1)"
  by (simp add: prod_eq_iff alice_approved_def)
     (simp add: alice_asked_def call_defs run_defs checked_add_def)

text \<open>The admin approves Alice's request, declared as a passport: Identity 1 is a
  \<open>personal_id\<close>.\<close>

theorem approveIDRequest_mints_witness:
  "reachable alice_asked \<and>
   approveIDRequest (call_by admin_addr 1100) 1 0 alice_asked = (alice_approved, Inr 1) \<and>
   identities alice_approved 1 =
     \<lparr>owner = alice, ipfsHash = ''meta'', createdAt = 1100, expiresAt = 0,
      isVerified = True, idType = ''personal_id'', uniqueIdentityHash = 7\<rparr> \<and>
   walletToId alice_approved alice = 1 \<and> hashToId alice_approved 7 = 1 \<and>
   \<not> isPending (idRequests alice_approved 1) \<and> isApproved (idRequests alice_approved 1) \<and>
   events alice_approved = events alice_asked @
     [IDRequestApproved 1 1 admin_addr, IdentityCreated 1 alice ''personal_id'' 7]"
proof -
  have r: "idRequests alice_asked 1 =
      \<lparr>requester = alice, req_ipfsHash = ''meta'', requestedAt = 1000,
       req_uniqueIdentityHash = 7, isPending = True, isApproved = False, isRejected = False\<rparr>"
    by (simp add: alice_asked_def call_defs run_defs checked_add_def)
  show ?thesis
    using approveIDRequest_mints[OF reachable_alice_asked approve_alice]
      reachable_alice_asked approve_alice
    by (simp add: r call_by_def)
qed

subsection \<open>Submission\<close>

text \<open>The loop over the caller's request ids reverts exactly when one of them is a pending
  request with the fingerprint.\<close>

lemma hash_pending_iff:
  "hash_pending reqs h xs \<longleftrightarrow>
     (\<exists>r \<in> set xs. isPending (reqs r) \<and> req_uniqueIdentityHash (reqs r) = h)"
  by (induction xs) auto

lemma requestIdentity_result:
  "requestIdentity env ipfs idty h s =
     (if hasIdentity s (msg_sender env) then (s, Inl WalletAlreadyHasID)
      else if isHashRegistered s h then (s, Inl HashAlreadyExists)
      else if (\<exists>r \<in> set (userRequests s (msg_sender env)).
                 isPending (idRequests s r) \<and> req_uniqueIdentityHash (idRequests s r) = h)
        then (s, Inl RequestAlreadyPending)
      else if requestCounter s = - 1 then (s, Inl ArithmeticPanic)
      else
        (s\<lparr>requestCounter := requestCounter s + 1,
           idRequests := (idRequests s)(requestCounter s + 1 :=
             \<lparr>requester = msg_sender env, req_ipfsHash = ipfs,
              requestedAt = block_timestamp env, req_uniqueIdentityHash = h,
              isPending = True, isApproved = False, isRejected = False\<rparr>),
           userRequests := (userRequests s)(msg_sender env :=
             userRequests s (msg_sender env) @ [requestCounter s + 1]),
           events := events s @ [IDRequested (requestCounter s + 1) (msg_sender env) h]\<rparr>,
         Inr (requestCounter s + 1)))"
  by (auto simp: call_defs checked_add_inc hash_pending_iff)

lemma alice_asked_eq:
  "alice_asked = genesis\<lparr>requestCounter := 1,
      idRequests := (idRequests genesis)(1 :=
        \<lparr>requester = alice, req_ipfsHash = ''meta'', requestedAt = 1000,
         req_uniqueIdentityHash = 7, isPending = True, isApproved = False, isRejected = False\<rparr>),
      userRequests := (userRequests genesis)(alice := [1]),
      events := events genesis @ [IDRequested 1 alice 7]\<rparr>"
  by (simp add: alice_asked_def requestIdentity_result)
     (simp add: run_defs hasIdentity_def isHashRegistered_def)

lemma of_nat_max_uint256: "(of_nat (2 ^ 256 - 1) :: uint256) = - 1"
  by (simp add: word_unat_eq_iff unat_max_uint256 unat_of_nat)

lemma of_nat_not_max: "Suc n < 2 ^ 256 \<Longrightarrow> (of_nat n :: uint256) \<noteq> - 1"
proof
  assume a: "Suc n < 2 ^ 256" and b: "(of_nat n :: uint256) = - 1"
  have "unat (of_nat n :: uint256) = n" using a by (simp add: unat_of_nat)
  with b have "n = 2 ^ 256 - 1" by (simp add: unat_max_uint256)
  with a show False by simp
qed

text \<open>Each round of asking and rejecting is two calls and moves the request counter by
  one, so the registry can reach any value of the counter.\<close>

lemma rounds_props:
  "n < 2 ^ 256 \<Longrightarrow>
     reachable (rounds n) \<and> requestCounter (rounds n) = of_nat n \<and>
     adminWallet (rounds n) = admin_addr \<and>
     walletToId (rounds n) = (\<lambda>_. 0) \<and> hashToId (rounds n) = (\<lambda>_. 0) \<and>
     (\<forall>k. \<not> isPending (idRequests (rounds n) k))"
proof (induction n)
  case 0
  show ?case by (simp add: reachable_genesis) (simp add: run_defs)
next
  case (Suc n)
  let ?s = "rounds n"
  let ?s1 = "fst (requestIdentity (call_by alice 1000) ''meta'' ''passport'' 7 ?s)"
  from Suc have ih: "reachable ?s" "requestCounter ?s = of_nat n" "adminWallet ?s = admin_addr"
    "walletToId ?s = (\<lambda>_. 0)" "hashToId ?s = (\<lambda>_. 0)" "\<forall>k. \<not> isPending (idRequests ?s k)"
    by simp_all
  have nm: "requestCounter ?s \<noteq> - 1" using of_nat_not_max[OF Suc.prems] ih(2) by simp
  have s1: "?s1 =
      ?s\<lparr>requestCounter := of_nat (Suc n),
         idRequests := (idRequests ?s)(of_nat (Suc n) :=
           \<lparr>requester = alice, req_ipfsHash = ''meta'', requestedAt = 1000,
            req_uniqueIdentityHash = 7, isPending = True, isApproved = False,
            isRejected = False\<rparr>),
         userRequests := (userRequests ?s)(alice := userRequests ?s alice @ [of_nat (Suc n)]),
         events := events ?s @ [IDRequested (of_nat (Suc n)) alice 7]\<rparr>"
    using ih nm
    by (simp add: requestIdentity_result hasIdentity_def isHashRegistered_def call_by_def add.commute)
  have r1: "reachable ?s1"
    by (rule reachable_call[OF ih(1), where env = "call_by alice 1000"
          and c = "RequestIdentity ''meta'' ''passport'' 7"]) (simp add: outcome_def)
  have r2: "reachable (rounds (Suc n))"
    by (rule reachable_call[OF r1, where env = "call_by admin_addr 1000"
          and c = "RejectIDRequest (of_nat (Suc n)) ''no''"]) (simp add: outcome_def)
  have rest: "requestCounter (rounds (Suc n)) = of_nat (Suc n) \<and>
     adminWallet (rounds (Suc n)) = admin_addr \<and>
     walletToId (rounds (Suc n)) = (\<lambda>_. 0) \<and> hashToId (rounds (Suc n)) = (\<lambda>_. 0) \<and>
     (\<forall>k. \<not> isPending (idRequests (rounds (Suc n)) k))"
    using ih(3-6)
    by (simp only: rounds.simps s1)
       (simp add: rejectIDRequest_def rejectIDRequest_body_def transaction_def emit_def Let_def
          call_by_def alice_def)
  from r2 rest show ?case by simp
qed

text \<open>
  Claim C3, as stated: for every caller and state, \<open>requestIdentity\<close> (the specification's
  \<open>submitRequest\<close>) fails with a \<open>DuplicateIdentityError\<close> when the caller already owns an
  Identity, with a \<open>DuplicateFingerprintError\<close> when the fingerprint is bound to a minted
  Identity, with a \<open>DuplicatePendingRequestError\<close> when the caller has a pending request
  with the same fingerprint, and otherwise succeeds. It does not in the reachable state
  \<open>exhausted\<close>, where the request counter is \<open>2 ^ 256 - 1\<close>: none of the three conditions
  holds for Alice and fingerprint 7, and the checked increment of the counter reverts.
\<close>

theorem requestIdentity_exhausted:
  "reachable exhausted \<and> \<not> hasIdentity exhausted alice \<and> \<not> isHashRegistered exhausted 7 \<and>
   \<not> hash_pending (idRequests exhausted) 7 (userRequests exhausted alice) \<and>
   requestIdentity (call_by alice 1000) ''meta'' ''passport'' 7 exhausted =
     (exhausted, Inl ArithmeticPanic)"
proof -
  have "(2 ^ 256 - 1 :: nat) < 2 ^ 256" by simp
  from rounds_props[OF this]
  have p: "reachable exhausted" "requestCounter exhausted = - 1"
    "walletToId exhausted = (\<lambda>_. 0)" "hashToId exhausted = (\<lambda>_. 0)"
    "\<forall>k. \<not> isPending (idRequests exhausted k)"
    by (simp_all add: exhausted_def of_nat_max_uint256)
  show ?thesis
    using p by (simp add: call_defs checked_add_inc hash_pending_iff)
qed

text \<open>
  Claim C3, amended. For every caller and state, \<open>requestIdentity\<close> fails with a
  \<open>DuplicateIdentityError\<close> when the caller already owns an Identity; otherwise with a
  \<open>DuplicateFingerprintError\<close> when the fingerprint is bound to a minted Identity; otherwise
  with a \<open>DuplicatePendingRequestError\<close> when a pending request with the same fingerprint
  is in the caller's own request list (no other list is read); otherwise with the
  arithmetic panic when the request counter is \<open>2 ^ 256 - 1\<close>; otherwise it succeeds: it
  stores a new pending request under the next sequential request id, appends that id to
  the caller's list, emits \<open>IDRequested\<close> and returns the id. The first id after
  deployment is 1, 0 being the sentinel.
\<close>

theorem requestIdentity_cases:
  "requestIdentity env ipfs idty h s =
     (if hasIdentity s (msg_sender env) then (s, Inl WalletAlreadyHasID)
      else if isHashRegistered s h then (s, Inl HashAlreadyExists)
      else if (\<exists>r \<in> set (userRequests s (msg_sender env)).
                 isPending (idRequests s r) \<and> req_uniqueIdentityHash (idRequests s r) = h)
        then (s, Inl RequestAlreadyPending)
      else if requestCounter s = - 1 then (s, Inl ArithmeticPanic)
      else
        (s\<lparr>requestCounter := requestCounter s + 1,
           idRequests := (idRequests s)(requestCounter s + 1 :=
             \<lparr>requester = msg_sender env, req_ipfsHash = ipfs,
              requestedAt = block_timestamp env, req_uniqueIdentityHash = h,
              isPending = True, isApproved = False, isRejected = False\<rparr>),
           userRequests := (userRequests s)(msg_sender env :=
             userRequests s (msg_sender env) @ [requestCounter s + 1]),
           events := events s @ [IDRequested (requestCounter s + 1) (msg_sender env) h]\<rparr>,
         Inr (requestCounter s + 1))) \<and>
   kind_of WalletAlreadyHasID = DuplicateIdentityError \<and>
   kind_of HashAlreadyExists = DuplicateFingerprintError \<and>
   kind_of RequestAlreadyPending = DuplicatePendingRequestError \<and>
   snd (requestIdentity env ipfs idty h (constructor env0 a0)) = Inr 1"
proof -
  have "snd (requestIdentity env ipfs idty h (constructor env0 a0)) = Inr 1"
    by (simp add: requestIdentity_result) (simp add: constructor_def hasIdentity_def isHashRegistered_def)
  then show ?thesis by (simp add: requestIdentity_result)
qed

text \<open>Alice's first request gets the id 1; her second with the same fingerprint is refused
  while the first is pending.\<close>

theorem requestIdentity_cases_witness:
  "requestIdentity (call_by alice 1000) ''meta'' ''passport'' 7 genesis = (alice_asked, Inr 1) \<and>
   idRequests alice_asked 1 =
      \<lparr>requester = alice, req_ipfsHash = ''meta'', requestedAt = 1000,
       req_uniqueIdentityHash = 7, isPending = True, isApproved = False, isRejected = False\<rparr> \<and>
   userRequests alice_asked alice = [1] \<and>
   requestIdentity (call_by alice 1001) ''meta'' ''passport'' 7 alice_asked =
     (alice_asked, Inl RequestAlreadyPending)"
proof -
  have a: "alice_asked = fst (requestIdentity (call_by alice 1000) ''meta'' ''passport'' 7 genesis)"
    by (simp add: alice_asked_def)
  have g: "\<not> hasIdentity genesis alice" "\<not> isHashRegistered genesis 7"
    "userRequests genesis alice = []" "requestCounter genesis = 0"
    by (simp_all add: run_defs hasIdentity_def isHashRegistered_def)
  have first: "requestIdentity (call_by alice 1000) ''meta'' ''passport'' 7 genesis = (alice_asked, Inr 1)"
    using requestIdentity_cases[of "call_by alice 1000" "''meta''" "''passport''" 7 genesis] g
    by (simp add: a call_by_def prod_eq_iff)
  have s: "alice_asked = genesis\<lparr>requestCounter := 1,
           idRequests := (idRequests genesis)(1 :=
             \<lparr>requester = alice, req_ipfsHash = ''meta'',
              requestedAt = 1000, req_uniqueIdentityHash = 7,
              isPending = True, isApproved = False, isRejected = False\<rparr>),
           userRequests := (userRequests genesis)(alice := [1]),
           events := events genesis @ [IDRequested 1 alice 7]\<rparr>"
    using requestIdentity_cases[of "call_by alice 1000" "''meta''" "''passport''" 7 genesis] g
    by (simp add: a call_by_def)
  have second: "requestIdentity (call_by alice 1001) ''meta'' ''passport'' 7 alice_asked =
     (alice_asked, Inl RequestAlreadyPending)"
    using requestIdentity_cases[of "call_by alice 1001" "''meta''" "''passport''" 7 alice_asked] g
    by (simp add: s call_by_def hasIdentity_def isHashRegistered_def)
  from first second show ?thesis by (simp add: s)
qed

subsection \<open>Revocation and re-creation\<close>

lemma revokeIdentity_success:
  "revokeIdentity env i s = (s1, Inr ()) \<Longrightarrow>
     identity_exists s i \<and>
     s1 = s\<lparr>walletToId := (walletToId s)(owner (identities s i) := 0),
            hashToId := (hashToId s)(uniqueIdentityHash (identities s i) := 0),
            identities := (identities s)(i := empty_identity),
            events := events s @ [IdentityRevoked i (msg_sender env)]\<rparr>"
  by (auto simp: call_defs identity_exists_def split: if_splits)

lemma expiry_ok:
  "d = 0 \<or> unat ts + unat d < 2 ^ 256 \<Longrightarrow>
     (if d > 0 then checked_add ts d else Some 0) = Some (if d > 0 then ts + d else 0)"
  by (auto simp: checked_add_def)

lemma createIdentity_succeeds:
  "msg_sender env = adminWallet s \<Longrightarrow> \<not> hasIdentity s a \<Longrightarrow> \<not> isHashRegistered s f \<Longrightarrow>
   idCounter s \<noteq> - 1 \<Longrightarrow> d = 0 \<or> unat (block_timestamp env) + unat d < 2 ^ 256 \<Longrightarrow>
   \<exists>s2. createIdentity env a ipfs d idty f s = (s2, Inr (idCounter s + 1))"
  by (simp add: createIdentity_def createIdentity_body_def transaction_def Let_def
      checked_add_inc expiry_ok)

lemma approveIDRequest_succeeds:
  "msg_sender env = adminWallet s \<Longrightarrow> requester (idRequests s r) \<noteq> 0 \<Longrightarrow>
   isPending (idRequests s r) \<Longrightarrow> \<not> hasIdentity s (requester (idRequests s r)) \<Longrightarrow>
   \<not> isHashRegistered s (req_uniqueIdentityHash (idRequests s r)) \<Longrightarrow>
   idCounter s \<noteq> - 1 \<Longrightarrow> d = 0 \<or> unat (block_timestamp env) + unat d < 2 ^ 256 \<Longrightarrow>
   \<exists>s3. approveIDRequest env r d s = (s3, Inr (idCounter s + 1))"
  by (simp add: approveIDRequest_def approveIDRequest_body_def transaction_def Let_def
      checked_add_inc expiry_ok)

lemma revoke_alice_created:
  "revokeIdentity (call_by admin_addr 1200) 1 alice_created = (alice_revoked, Inr ())"
  by (simp add: prod_eq_iff alice_revoked_def)
     (simp add: alice_created_def alice_asked_def call_defs run_defs checked_add_def)

lemma alice_revoked_facts:
  "walletToId alice_revoked alice = 0" "hashToId alice_revoked 7 = 0"
  "userRequests alice_revoked alice = [1]" "isPending (idRequests alice_revoked 1)"
  "req_uniqueIdentityHash (idRequests alice_revoked 1) = 7"
  by (simp_all add: alice_revoked_def alice_created_def alice_asked_def call_defs run_defs
      checked_add_def)

text \<open>
  Claim C5, as stated: after a successful revocation of an Identity with owner \<open>a\<close> and
  fingerprint \<open>f\<close>, an immediately following identity creation for \<open>a\<close> and \<open>f\<close>, by
  direct creation or by submission and approval, succeeds. The submission does not when
  \<open>a\<close> still has a pending request with \<open>f\<close>: Alice asked with fingerprint 7, the admin
  created her Identity directly and revoked it, and her new request with fingerprint 7
  is refused as a duplicate of the pending one.
\<close>

theorem resubmission_after_revoke_blocked:
  "reachable alice_created \<and> owner (identities alice_created 1) = alice \<and>
   uniqueIdentityHash (identities alice_created 1) = 7 \<and>
   revokeIdentity (call_by admin_addr 1200) 1 alice_created = (alice_revoked, Inr ()) \<and>
   requestIdentity (call_by alice 1300) ''meta'' ''passport'' 7 alice_revoked =
     (alice_revoked, Inl RequestAlreadyPending)"
  using reachable_alice_created revoke_alice_created alice_revoked_facts
  by (simp add: alice_created_1 requestIdentity_result hasIdentity_def isHashRegistered_def
      call_by_def)

text \<open>
  Claim C5, amended. In every reachable state, a successful \<open>revokeIdentity\<close> of an
  Identity with owner \<open>a\<close> and fingerprint \<open>f\<close> clears the wallet index entry of \<open>a\<close> and
  the fingerprint index entry of \<open>f\<close> to zero and deletes the record. Immediately
  afterwards, and as long as the ID counter is below \<open>2 ^ 256 - 1\<close> and the expiry
  timestamp does not overflow, a direct creation by the admin for \<open>a\<close> and \<open>f\<close> succeeds
  and returns the next ID number, which is not the revoked one and under which no
  Identity exists; a submission by \<open>a\<close> with \<open>f\<close> succeeds, as long as the request
  counter is below \<open>2 ^ 256 - 1\<close>, exactly when \<open>a\<close> has no pending request with \<open>f\<close>;
  and after a successful submission its approval by the admin succeeds and returns that
  same fresh ID number.
\<close>

theorem revoke_then_create:
  assumes "reachable s" and "revokeIdentity env i s = (s1, Inr ())"
    and "a = owner (identities s i)" and "f = uniqueIdentityHash (identities s i)"
  shows
   "walletToId s1 a = 0 \<and> hashToId s1 f = 0 \<and> identities s1 i = empty_identity \<and>
    (msg_sender env1 = adminWallet s1 \<and> idCounter s1 \<noteq> - 1 \<and>
     (d = 0 \<or> unat (block_timestamp env1) + unat d < 2 ^ 256) \<longrightarrow>
       (\<exists>s2. createIdentity env1 a ipfs d idty f s1 = (s2, Inr (idCounter s1 + 1))) \<and>
       idCounter s1 + 1 \<noteq> i \<and> \<not> identity_exists s1 (idCounter s1 + 1)) \<and>
    (msg_sender env2 = a \<and> requestCounter s1 \<noteq> - 1 \<longrightarrow>
       ((\<exists>s2. requestIdentity env2 ipfs idty f s1 = (s2, Inr (requestCounter s1 + 1))) \<longleftrightarrow>
        \<not> (\<exists>r \<in> set (userRequests s1 a).
              isPending (idRequests s1 r) \<and> req_uniqueIdentityHash (idRequests s1 r) = f))) \<and>
    (msg_sender env2 = a \<and> requestIdentity env2 ipfs idty f s1 = (s2, Inr rid) \<and>
     msg_sender env3 = adminWallet s2 \<and> idCounter s1 \<noteq> - 1 \<and>
     (d = 0 \<or> unat (block_timestamp env3) + unat d < 2 ^ 256) \<longrightarrow>
       (\<exists>s3. approveIDRequest env3 rid d s2 = (s3, Inr (idCounter s1 + 1))) \<and>
       idCounter s1 + 1 \<noteq> i \<and> \<not> identity_exists s2 (idCounter s1 + 1))"
proof -
  from revokeIdentity_success[OF assms(2)]
  have ex: "identity_exists s i"
    and s1: "s1 = s\<lparr>walletToId := (walletToId s)(a := 0), hashToId := (hashToId s)(f := 0),
            identities := (identities s)(i := empty_identity),
            events := events s @ [IdentityRevoked i (msg_sender env)]\<rparr>"
    by (simp_all add: assms(3,4))
  have a0: "a \<noteq> 0" using ex by (simp add: identity_exists_def assms(3))
  have cleared: "walletToId s1 a = 0" "hashToId s1 f = 0" "identities s1 i = empty_identity"
    "\<not> hasIdentity s1 a" "\<not> isHashRegistered s1 f"
    by (simp_all add: s1 hasIdentity_def isHashRegistered_def)
  have fr: "fresh_inv s" by (rule reachable_fresh_inv[OF assms(1)])
  have fresh: "idCounter s1 \<noteq> - 1 \<Longrightarrow>
      idCounter s1 + 1 \<noteq> i \<and> \<not> identity_exists s1 (idCounter s1 + 1)"
  proof -
    assume c: "idCounter s1 \<noteq> - 1"
    then have l: "idCounter s < idCounter s + 1" using inc_less[of "idCounter s"] by (simp add: s1)
    with fr have n: "\<not> identity_exists s (idCounter s + 1)" by (simp add: fresh_inv_def)
    with ex have "idCounter s + 1 \<noteq> i" by auto
    with n show ?thesis by (auto simp: s1 identity_exists_def empty_identity_def)
  qed
  have direct: "msg_sender env1 = adminWallet s1 \<and> idCounter s1 \<noteq> - 1 \<and>
     (d = 0 \<or> unat (block_timestamp env1) + unat d < 2 ^ 256) \<longrightarrow>
       (\<exists>s2. createIdentity env1 a ipfs d idty f s1 = (s2, Inr (idCounter s1 + 1))) \<and>
       idCounter s1 + 1 \<noteq> i \<and> \<not> identity_exists s1 (idCounter s1 + 1)"
    using createIdentity_succeeds[OF _ cleared(4,5), of env1 d ipfs idty] fresh by blast
  have submit: "msg_sender env2 = a \<and> requestCounter s1 \<noteq> - 1 \<longrightarrow>
       ((\<exists>s2. requestIdentity env2 ipfs idty f s1 = (s2, Inr (requestCounter s1 + 1))) \<longleftrightarrow>
        \<not> (\<exists>r \<in> set (userRequests s1 a).
              isPending (idRequests s1 r) \<and> req_uniqueIdentityHash (idRequests s1 r) = f))"
    using cleared(4,5) by (auto simp: requestIdentity_result)
  have approve: "msg_sender env2 = a \<and> requestIdentity env2 ipfs idty f s1 = (s2, Inr rid) \<and>
     msg_sender env3 = adminWallet s2 \<and> idCounter s1 \<noteq> - 1 \<and>
     (d = 0 \<or> unat (block_timestamp env3) + unat d < 2 ^ 256) \<longrightarrow>
       (\<exists>s3. approveIDRequest env3 rid d s2 = (s3, Inr (idCounter s1 + 1))) \<and>
       idCounter s1 + 1 \<noteq> i \<and> \<not> identity_exists s2 (idCounter s1 + 1)"
  proof (intro impI, elim conjE)
    assume h: "msg_sender env2 = a" "requestIdentity env2 ipfs idty f s1 = (s2, Inr rid)"
      "msg_sender env3 = adminWallet s2" "idCounter s1 \<noteq> - 1"
      "d = 0 \<or> unat (block_timestamp env3) + unat d < 2 ^ 256"
    from h(2) have s2: "s2 = s1\<lparr>requestCounter := rid,
           idRequests := (idRequests s1)(rid :=
             \<lparr>requester = a, req_ipfsHash = ipfs,
              requestedAt = block_timestamp env2, req_uniqueIdentityHash = f,
              isPending = True, isApproved = False, isRejected = False\<rparr>),
           userRequests := (userRequests s1)(a := userRequests s1 a @ [rid]),
           events := events s1 @ [IDRequested rid a f]\<rparr>"
      by (auto simp: requestIdentity_result h(1) split: if_splits)
    have q: "requester (idRequests s2 rid) = a" "isPending (idRequests s2 rid)"
      "req_uniqueIdentityHash (idRequests s2 rid) = f" "idCounter s2 = idCounter s1"
      "\<not> hasIdentity s2 a" "\<not> isHashRegistered s2 f"
      using cleared by (simp_all add: s2 hasIdentity_def isHashRegistered_def)
    have "\<exists>s3. approveIDRequest env3 rid d s2 = (s3, Inr (idCounter s2 + 1))"
      by (rule approveIDRequest_succeeds[OF h(3) _ _ _ _ _ h(5)]) (simp_all add: q a0 h(4))
    moreover have "\<not> identity_exists s2 (idCounter s1 + 1)"
      using fresh[OF h(4)] by (simp add: s2 identity_exists_def)
    ultimately show "(\<exists>s3. approveIDRequest env3 rid d s2 = (s3, Inr (idCounter s1 + 1))) \<and>
       idCounter s1 + 1 \<noteq> i \<and> \<not> identity_exists s2 (idCounter s1 + 1)"
      using fresh[OF h(4)] by (simp add: q)
  qed
  from cleared(1-3) direct submit approve show ?thesis by blast
qed

lemma revoke_alice_approved:
  "revokeIdentity (call_by alice 1200) 1 alice_approved = (alice_approved_revoked, Inr ())"
  by (simp add: prod_eq_iff alice_approved_revoked_def)
     (simp add: revokeIdentity_def revokeIdentity_body_def transaction_def alice_approved_1
        call_by_def alice_def)

lemma alice_approved_revoked_facts:
  "adminWallet alice_approved_revoked = admin_addr" "idCounter alice_approved_revoked = 1"
  "requestCounter alice_approved_revoked = 1" "userRequests alice_approved_revoked alice = [1]"
  "\<not> isPending (idRequests alice_approved_revoked 1)"
  "walletToId alice_approved_revoked alice = 0" "hashToId alice_approved_revoked 7 = 0"
  by (simp_all add: alice_approved_revoked_def alice_approved_def alice_asked_def call_defs
      run_defs checked_add_def)

lemma alice_asked_again_eq:
  "alice_asked_again = alice_approved_revoked\<lparr>requestCounter := 2,
      idRequests := (idRequests alice_approved_revoked)(2 :=
        \<lparr>requester = alice, req_ipfsHash = ''meta'', requestedAt = 1300,
         req_uniqueIdentityHash = 7, isPending = True, isApproved = False, isRejected = False\<rparr>),
      userRequests := (userRequests alice_approved_revoked)(alice := [1, 2]),
      events := events alice_approved_revoked @ [IDRequested 2 alice 7]\<rparr>"
  using alice_approved_revoked_facts
  by (simp add: alice_asked_again_def requestIdentity_result hasIdentity_def
      isHashRegistered_def call_by_def)

text \<open>Alice revokes her approved Identity 1; the admin can create Identity 2 for her with
  the same fingerprint, and she can ask again and be approved as Identity 2.\<close>

theorem revoke_then_create_witness:
  "reachable alice_approved \<and>
   revokeIdentity (call_by alice 1200) 1 alice_approved = (alice_approved_revoked, Inr ()) \<and>
   walletToId alice_approved_revoked alice = 0 \<and> hashToId alice_approved_revoked 7 = 0 \<and>
   identities alice_approved_revoked 1 = empty_identity \<and>
   (\<exists>s2. createIdentity (call_by admin_addr 1300) alice ''meta'' 3600 ''passport'' 7
           alice_approved_revoked = (s2, Inr 2)) \<and>
   requestIdentity (call_by alice 1300) ''meta'' ''passport'' 7 alice_approved_revoked =
     (alice_asked_again, Inr 2) \<and>
   (\<exists>s3. approveIDRequest (call_by admin_addr 1400) 2 0 alice_asked_again = (s3, Inr 2))"
proof -
  note f = alice_approved_revoked_facts
  have o: "alice = owner (identities alice_approved 1)"
    "7 = uniqueIdentityHash (identities alice_approved 1)"
    by (simp_all add: alice_approved_1)
  have h1: "msg_sender (call_by admin_addr 1300) = adminWallet alice_approved_revoked \<and>
     idCounter alice_approved_revoked \<noteq> - 1 \<and>
     ((3600 :: uint256) = 0 \<or> unat (block_timestamp (call_by admin_addr 1300)) + unat (3600 :: uint256) < 2 ^ 256)"
    by (simp add: f call_by_def)
  have h2: "msg_sender (call_by alice 1300) = alice \<and> requestCounter alice_approved_revoked \<noteq> - 1"
    by (simp add: f call_by_def)
  have np: "\<not> (\<exists>r \<in> set (userRequests alice_approved_revoked alice).
              isPending (idRequests alice_approved_revoked r) \<and>
              req_uniqueIdentityHash (idRequests alice_approved_revoked r) = 7)"
    by (simp add: f)
  note t = revoke_then_create[OF reachable_alice_approved revoke_alice_approved o]
  from t[of "call_by admin_addr 1300" 3600 "''meta''" "''passport''"] h1
  have direct: "\<exists>s2. createIdentity (call_by admin_addr 1300) alice ''meta'' 3600 ''passport'' 7
           alice_approved_revoked = (s2, Inr 2)"
    by (simp add: f)
  from t[of _ _ "''meta''" "''passport''" "call_by alice 1300"] h2 np
  obtain s2 where "requestIdentity (call_by alice 1300) ''meta'' ''passport'' 7
      alice_approved_revoked = (s2, Inr (requestCounter alice_approved_revoked + 1))"
    by blast
  then have again: "requestIdentity (call_by alice 1300) ''meta'' ''passport'' 7
      alice_approved_revoked = (alice_asked_again, Inr 2)"
    by (simp add: alice_asked_again_def f)
  have h3: "msg_sender (call_by alice 1300) = alice \<and>
     requestIdentity (call_by alice 1300) ''meta'' ''passport'' 7 alice_approved_revoked =
       (alice_asked_again, Inr 2) \<and>
     msg_sender (call_by admin_addr 1400) = adminWallet alice_asked_again \<and>
     idCounter alice_approved_revoked \<noteq> - 1 \<and>
     ((0 :: uint256) = 0 \<or> unat (block_timestamp (call_by admin_addr 1400)) + unat (0 :: uint256) < 2 ^ 256)"
    using again by (simp add: f call_by_def alice_asked_again_eq)
  from t[of _ 0 "''meta''" "''passport''" "call_by alice 1300" alice_asked_again 2
      "call_by admin_addr 1400"] h3
  have approve: "\<exists>s3. approveIDRequest (call_by admin_addr 1400) 2 0 alice_asked_again = (s3, Inr 2)"
    by (simp add: f)
  from t reachable_alice_approved revoke_alice_approved direct again approve
  show ?thesis by simp
qed

subsection \<open>The uniqueness indexes\<close>

lemma create_zero_owner:
  "createIdentity (call_by admin_addr 1100) 0 ''meta'' 0 ''passport'' 7 genesis =
     (zero_owner_created, Inr 1)"
  by (simp add: prod_eq_iff zero_owner_created_def)
     (simp add: call_defs run_defs checked_add_def)

lemma zero_owner_created_eq:
  "zero_owner_created = genesis\<lparr>idCounter := 1,
      identities := (identities genesis)(1 :=
        \<lparr>owner = 0, ipfsHash = ''meta'', createdAt = 1100, expiresAt = 0,
         isVerified = True, idType = ''passport'', uniqueIdentityHash = 7\<rparr>),
      walletToId := (walletToId genesis)(0 := 1),
      hashToId := (hashToId genesis)(7 := 1),
      events := events genesis @ [IdentityCreated 1 0 ''passport'' 7]\<rparr>"
  by (simp add: zero_owner_created_def call_defs run_defs checked_add_def)

text \<open>
  Claim C1. In every state reachable by any sequence of registry operations, each address
  owns at most one Identity, each fingerprint is bound to at most one Identity, and the
  wallet and fingerprint indexes agree with the Identity ledger: a non-zero index entry
  points to an existing Identity with that owner or fingerprint, and every existing
  Identity is indexed under its owner and its fingerprint. The source breaks the
  agreement when the admin calls \<open>createIdentity\<close> for the zero address, which it does
  not refuse: the call succeeds and sets both index entries to the new number 1, but the
  record's owner is the zero address, so no Identity exists under 1 for any function of
  the contract. The Identity is not valid and cannot be revoked, and fingerprint 7 is
  refused to every later request and creation.
\<close>

theorem zero_owner_identity_blocks_fingerprint:
  "createIdentity (call_by admin_addr 1100) 0 ''meta'' 0 ''passport'' 7 genesis =
     (zero_owner_created, Inr 1) \<and>
   walletToId zero_owner_created 0 = 1 \<and> hashToId zero_owner_created 7 = 1 \<and>
   \<not> identity_exists zero_owner_created 1 \<and>
   \<not> isIdentityValid (call_by alice 1200) zero_owner_created 1 \<and>
   revokeIdentity (call_by admin_addr 1200) 1 zero_owner_created =
     (zero_owner_created, Inl IdentityDoesNotExist) \<and>
   requestIdentity (call_by alice 1200) ''meta'' ''passport'' 7 zero_owner_created =
     (zero_owner_created, Inl HashAlreadyExists) \<and>
   createIdentity (call_by admin_addr 1200) alice ''meta'' 0 ''passport'' 7 zero_owner_created =
     (zero_owner_created, Inl UniqueHashAlreadyExists)"
  using create_zero_owner
  by (simp add: zero_owner_created_eq identity_exists_def isIdentityValid_def call_defs)
     (simp add: run_defs)

lemma reachable_zero_owner_created: "reachable zero_owner_created"
  by (rule reachable_call[OF reachable_genesis,
        where env = "call_by admin_addr 1100"
          and c = "CreateIdentity 0 ''meta'' 0 ''passport'' 7"])
     (simp add: zero_owner_created_def outcome_def)

lemma zero_owner_indexes_disagree: "\<not> indexes_agree zero_owner_created"
proof
  assume "indexes_agree zero_owner_created"
  then have "hashToId zero_owner_created 7 \<noteq> 0 \<longrightarrow>
      identity_exists zero_owner_created (hashToId zero_owner_created 7)"
    unfolding indexes_agree_def by blast
  then show False
    by (simp add: zero_owner_created_eq identity_exists_def)
qed

lemma indexes_agree_constructor: "indexes_agree (constructor env a)"
  by (simp add: indexes_agree_def identity_exists_def constructor_def empty_identity_def)

text \<open>Apart from that call the agreement is an invariant: the three ways a call changes
  the ledger (a new Identity under the next number, the removal of one, a change of
  fields other than owner and fingerprint) preserve it.\<close>

lemma indexes_agree_cong:
  "identities s' = identities s \<Longrightarrow> walletToId s' = walletToId s \<Longrightarrow>
   hashToId s' = hashToId s \<Longrightarrow> indexes_agree s' = indexes_agree s"
  by (simp add: indexes_agree_def identity_exists_def)

lemma indexes_agree_wallet:
  "indexes_agree s \<Longrightarrow> walletToId s a \<noteq> 0 \<Longrightarrow>
     identity_exists s (walletToId s a) \<and> owner (identities s (walletToId s a)) = a"
  by (simp add: indexes_agree_def)

lemma indexes_agree_hash:
  "indexes_agree s \<Longrightarrow> hashToId s x \<noteq> 0 \<Longrightarrow>
     identity_exists s (hashToId s x) \<and> uniqueIdentityHash (identities s (hashToId s x)) = x"
  by (simp add: indexes_agree_def)

lemma indexes_agree_identity:
  "indexes_agree s \<Longrightarrow> identity_exists s k \<Longrightarrow>
     walletToId s (owner (identities s k)) = k \<and>
     hashToId s (uniqueIdentityHash (identities s k)) = k"
  by (simp add: indexes_agree_def)

lemma indexes_agree_add:
  assumes "indexes_agree s" and "\<not> identity_exists s n" and "\<not> identity_exists s 0" and "n \<noteq> 0"
    and "owner idn \<noteq> 0" and "walletToId s (owner idn) = 0"
    and "hashToId s (uniqueIdentityHash idn) = 0"
    and "identities s' = (identities s)(n := idn)"
    and "walletToId s' = (walletToId s)(owner idn := n)"
    and "hashToId s' = (hashToId s)(uniqueIdentityHash idn := n)"
  shows "indexes_agree s'"
proof -
  have w: "\<And>a. walletToId s a \<noteq> 0 \<Longrightarrow>
      identity_exists s (walletToId s a) \<and> owner (identities s (walletToId s a)) = a"
    and h: "\<And>x. hashToId s x \<noteq> 0 \<Longrightarrow>
      identity_exists s (hashToId s x) \<and> uniqueIdentityHash (identities s (hashToId s x)) = x"
    and k: "\<And>k. identity_exists s k \<Longrightarrow>
      walletToId s (owner (identities s k)) = k \<and> hashToId s (uniqueIdentityHash (identities s k)) = k"
    using indexes_agree_wallet[OF assms(1)] indexes_agree_hash[OF assms(1)]
      indexes_agree_identity[OF assms(1)] by simp_all
  have ex': "\<And>j. identity_exists s' j \<longleftrightarrow> j = n \<or> identity_exists s j"
    using assms(2,5,8) by (auto simp: identity_exists_def)
  show ?thesis
    unfolding indexes_agree_def
  proof (intro conjI allI impI)
    fix a assume "walletToId s' a \<noteq> 0"
    then show "identity_exists s' (walletToId s' a)"
      using w[of a] assms(9) by (auto simp: ex')
  next
    fix a assume a: "walletToId s' a \<noteq> 0"
    show "owner (identities s' (walletToId s' a)) = a"
    proof (cases "a = owner idn")
      case True then show ?thesis by (simp add: assms(8,9))
    next
      case False
      with a w[of a] assms(2) show ?thesis by (auto simp: assms(8,9))
    qed
  next
    fix x assume "hashToId s' x \<noteq> 0"
    then show "identity_exists s' (hashToId s' x)"
      using h[of x] assms(10) by (auto simp: ex')
  next
    fix x assume x: "hashToId s' x \<noteq> 0"
    show "uniqueIdentityHash (identities s' (hashToId s' x)) = x"
    proof (cases "x = uniqueIdentityHash idn")
      case True then show ?thesis by (simp add: assms(8,10))
    next
      case False
      with x h[of x] assms(2) show ?thesis by (auto simp: assms(8,10))
    qed
  next
    fix j assume j: "identity_exists s' j"
    show "walletToId s' (owner (identities s' j)) = j"
    proof (cases "j = n")
      case True then show ?thesis by (simp add: assms(8,9))
    next
      case False
      with j have e: "identity_exists s j" by (simp add: ex')
      then have "j \<noteq> 0" using assms(3) by auto
      with k[OF e] assms(6) have "owner (identities s j) \<noteq> owner idn" by auto
      with False k[OF e] show ?thesis by (simp add: assms(8,9))
    qed
  next
    fix j assume j: "identity_exists s' j"
    show "hashToId s' (uniqueIdentityHash (identities s' j)) = j"
    proof (cases "j = n")
      case True then show ?thesis by (simp add: assms(8,10))
    next
      case False
      with j have e: "identity_exists s j" by (simp add: ex')
      then have "j \<noteq> 0" using assms(3) by auto
      with k[OF e] assms(7) have "uniqueIdentityHash (identities s j) \<noteq> uniqueIdentityHash idn"
        by auto
      with False k[OF e] show ?thesis by (simp add: assms(8,10))
    qed
  qed
qed

lemma indexes_agree_remove:
  assumes "indexes_agree s" and "identity_exists s i"
    and "identities s' = (identities s)(i := empty_identity)"
    and "walletToId s' = (walletToId s)(owner (identities s i) := 0)"
    and "hashToId s' = (hashToId s)(uniqueIdentityHash (identities s i) := 0)"
  shows "indexes_agree s'"
proof -
  have w: "\<And>a. walletToId s a \<noteq> 0 \<Longrightarrow>
      identity_exists s (walletToId s a) \<and> owner (identities s (walletToId s a)) = a"
    and h: "\<And>x. hashToId s x \<noteq> 0 \<Longrightarrow>
      identity_exists s (hashToId s x) \<and> uniqueIdentityHash (identities s (hashToId s x)) = x"
    and k: "\<And>k. identity_exists s k \<Longrightarrow>
      walletToId s (owner (identities s k)) = k \<and> hashToId s (uniqueIdentityHash (identities s k)) = k"
    using indexes_agree_wallet[OF assms(1)] indexes_agree_hash[OF assms(1)]
      indexes_agree_identity[OF assms(1)] by simp_all
  have ex': "\<And>j. identity_exists s' j \<longleftrightarrow> j \<noteq> i \<and> identity_exists s j"
    using assms(3) by (auto simp: identity_exists_def empty_identity_def)
  have wi: "walletToId s a \<noteq> i" if "a \<noteq> owner (identities s i)" "walletToId s a \<noteq> 0" for a
  proof
    assume "walletToId s a = i"
    with w[OF that(2)] have "owner (identities s i) = a" by simp
    with that(1) show False by simp
  qed
  have hi: "hashToId s x \<noteq> i"
    if "x \<noteq> uniqueIdentityHash (identities s i)" "hashToId s x \<noteq> 0" for x
  proof
    assume "hashToId s x = i"
    with h[OF that(2)] have "uniqueIdentityHash (identities s i) = x" by simp
    with that(1) show False by simp
  qed
  show ?thesis
    unfolding indexes_agree_def
  proof (intro conjI allI impI)
    fix a assume "walletToId s' a \<noteq> 0"
    then have a: "a \<noteq> owner (identities s i)" "walletToId s a \<noteq> 0" "walletToId s' a = walletToId s a"
      by (auto simp: assms(4) split: if_splits)
    from wi[OF a(1,2)] w[OF a(2)] a(3)
    show "identity_exists s' (walletToId s' a)" "owner (identities s' (walletToId s' a)) = a"
      by (simp_all add: ex' assms(3))
  next
    fix x assume "hashToId s' x \<noteq> 0"
    then have a: "x \<noteq> uniqueIdentityHash (identities s i)" "hashToId s x \<noteq> 0" "hashToId s' x = hashToId s x"
      by (auto simp: assms(5) split: if_splits)
    from hi[OF a(1,2)] h[OF a(2)] a(3)
    show "identity_exists s' (hashToId s' x)" "uniqueIdentityHash (identities s' (hashToId s' x)) = x"
      by (simp_all add: ex' assms(3))
  next
    fix j assume "identity_exists s' j"
    then have j: "j \<noteq> i" "identity_exists s j" by (simp_all add: ex')
    from k[OF j(2)] k[OF assms(2)] j(1)
    have "owner (identities s j) \<noteq> owner (identities s i)"
      "uniqueIdentityHash (identities s j) \<noteq> uniqueIdentityHash (identities s i)"
      by auto
    with k[OF j(2)] j(1)
    show "walletToId s' (owner (identities s' j)) = j"
      "hashToId s' (uniqueIdentityHash (identities s' j)) = j"
      by (simp_all add: assms(3,4,5))
  qed
qed

lemma indexes_agree_touch:
  assumes "indexes_agree s"
    and "identities s' = (identities s)(i := idn)"
    and "owner idn = owner (identities s i)"
    and "uniqueIdentityHash idn = uniqueIdentityHash (identities s i)"
    and "walletToId s' = walletToId s" and "hashToId s' = hashToId s"
  shows "indexes_agree s'"
proof -
  have o: "\<And>j. owner (identities s' j) = owner (identities s j)"
    and u: "\<And>j. uniqueIdentityHash (identities s' j) = uniqueIdentityHash (identities s j)"
    using assms(2,3,4) by auto
  have "indexes_agree s' = indexes_agree s"
    unfolding indexes_agree_def identity_exists_def o u assms(5,6) ..
  with assms(1) show ?thesis by simp
qed

lemma createIdentity_effect:
  "fst (createIdentity env a ipfs d idty h s) = s \<or>
   (walletToId s a = 0 \<and> hashToId s h = 0 \<and> idCounter s \<noteq> - 1 \<and>
    owner (identities (fst (createIdentity env a ipfs d idty h s)) (idCounter s + 1)) = a \<and>
    uniqueIdentityHash (identities (fst (createIdentity env a ipfs d idty h s)) (idCounter s + 1))
      = h \<and>
    identities (fst (createIdentity env a ipfs d idty h s)) =
      (identities s)(idCounter s + 1 :=
         identities (fst (createIdentity env a ipfs d idty h s)) (idCounter s + 1)) \<and>
    walletToId (fst (createIdentity env a ipfs d idty h s)) =
      (walletToId s)(a := idCounter s + 1) \<and>
    hashToId (fst (createIdentity env a ipfs d idty h s)) =
      (hashToId s)(h := idCounter s + 1))"
  by (auto simp: createIdentity_def createIdentity_body_def transaction_def emit_def Let_def
      hasIdentity_def isHashRegistered_def checked_add_inc split: option.splits)

lemma approveIDRequest_effect:
  "fst (approveIDRequest env r d s) = s \<or>
   (requester (idRequests s r) \<noteq> 0 \<and> walletToId s (requester (idRequests s r)) = 0 \<and>
    hashToId s (req_uniqueIdentityHash (idRequests s r)) = 0 \<and> idCounter s \<noteq> - 1 \<and>
    owner (identities (fst (approveIDRequest env r d s)) (idCounter s + 1)) =
      requester (idRequests s r) \<and>
    uniqueIdentityHash (identities (fst (approveIDRequest env r d s)) (idCounter s + 1)) =
      req_uniqueIdentityHash (idRequests s r) \<and>
    identities (fst (approveIDRequest env r d s)) =
      (identities s)(idCounter s + 1 :=
         identities (fst (approveIDRequest env r d s)) (idCounter s + 1)) \<and>
    walletToId (fst (approveIDRequest env r d s)) =
      (walletToId s)(requester (idRequests s r) := idCounter s + 1) \<and>
    hashToId (fst (approveIDRequest env r d s)) =
      (hashToId s)(req_uniqueIdentityHash (idRequests s r) := idCounter s + 1))"
  by (auto simp: approveIDRequest_def approveIDRequest_body_def transaction_def emit_def Let_def
      hasIdentity_def isHashRegistered_def checked_add_inc split: option.splits)

lemma revokeIdentity_effect:
  "fst (revokeIdentity env i s) = s \<or>
   (identity_exists s i \<and>
    identities (fst (revokeIdentity env i s)) = (identities s)(i := empty_identity) \<and>
    walletToId (fst (revokeIdentity env i s)) = (walletToId s)(owner (identities s i) := 0) \<and>
    hashToId (fst (revokeIdentity env i s)) =
      (hashToId s)(uniqueIdentityHash (identities s i) := 0))"
  by (auto simp: revokeIdentity_def revokeIdentity_body_def transaction_def emit_def Let_def
      identity_exists_def)

lemma indexes_agree_new:
  assumes "indexes_agree s" and "fresh_inv s" and "idCounter s \<noteq> - 1"
    and "owner idn \<noteq> 0" and "walletToId s (owner idn) = 0"
    and "hashToId s (uniqueIdentityHash idn) = 0"
    and "identities s' = (identities s)(idCounter s + 1 := idn)"
    and "walletToId s' = (walletToId s)(owner idn := idCounter s + 1)"
    and "hashToId s' = (hashToId s)(uniqueIdentityHash idn := idCounter s + 1)"
  shows "indexes_agree s'"
proof -
  have "\<not> identity_exists s (idCounter s + 1)" "\<not> identity_exists s 0"
    using assms(2) inc_less[OF assms(3)] by (simp_all add: fresh_inv_def)
  then show ?thesis
    by (rule indexes_agree_add[OF assms(1) _ _ inc_nonzero[OF assms(3)] assms(4-9)])
qed

lemma indexes_agree_exec:
  assumes "indexes_agree s" and "fresh_inv s"
    and "\<And>ipfs d idty h. c \<noteq> CreateIdentity 0 ipfs d idty h"
  shows "indexes_agree (fst (exec env c s))"
proof (cases c)
  case (ChangeAdmin a)
  have "indexes_agree (fst (exec env c s)) = indexes_agree s"
    by (rule indexes_agree_cong) (simp_all add: ChangeAdmin outcome_def call_defs)
  with assms(1) show ?thesis by simp
next
  case (AddVerifier a)
  have "indexes_agree (fst (exec env c s)) = indexes_agree s"
    by (rule indexes_agree_cong) (simp_all add: AddVerifier outcome_def call_defs)
  with assms(1) show ?thesis by simp
next
  case (RemoveVerifier a)
  have "indexes_agree (fst (exec env c s)) = indexes_agree s"
    by (rule indexes_agree_cong) (simp_all add: RemoveVerifier outcome_def call_defs)
  with assms(1) show ?thesis by simp
next
  case (RequestIdentity ipfs idty h)
  have "indexes_agree (fst (exec env c s)) = indexes_agree s"
    by (rule indexes_agree_cong)
       (simp_all add: RequestIdentity outcome_def call_defs checked_add_inc)
  with assms(1) show ?thesis by simp
next
  case (RejectIDRequest r reason)
  have "indexes_agree (fst (exec env c s)) = indexes_agree s"
    by (rule indexes_agree_cong) (simp_all add: RejectIDRequest outcome_def call_defs)
  with assms(1) show ?thesis by simp
next
  case (ApproveIDRequest r d)
  let ?s' = "fst (approveIDRequest env r d s)"
  show ?thesis
  proof (cases "?s' = s")
    case True
    with assms(1) show ?thesis by (simp add: ApproveIDRequest outcome_def)
  next
    case False
    with approveIDRequest_effect[of env r d s]
    have "idCounter s \<noteq> - 1" "owner (identities ?s' (idCounter s + 1)) \<noteq> 0"
      "walletToId s (owner (identities ?s' (idCounter s + 1))) = 0"
      "hashToId s (uniqueIdentityHash (identities ?s' (idCounter s + 1))) = 0"
      "identities ?s' = (identities s)(idCounter s + 1 := identities ?s' (idCounter s + 1))"
      "walletToId ?s' = (walletToId s)(owner (identities ?s' (idCounter s + 1)) := idCounter s + 1)"
      "hashToId ?s' =
         (hashToId s)(uniqueIdentityHash (identities ?s' (idCounter s + 1)) := idCounter s + 1)"
      by simp_all
    from indexes_agree_new[OF assms(1,2) this]
    show ?thesis by (simp add: ApproveIDRequest outcome_def)
  qed
next
  case (CreateIdentity a ipfs d idty h)
  with assms(3) have a0: "a \<noteq> 0" by auto
  let ?s' = "fst (createIdentity env a ipfs d idty h s)"
  show ?thesis
  proof (cases "?s' = s")
    case True
    with assms(1) show ?thesis by (simp add: CreateIdentity outcome_def)
  next
    case False
    with createIdentity_effect[of env a ipfs d idty h s] a0
    have "idCounter s \<noteq> - 1" "owner (identities ?s' (idCounter s + 1)) \<noteq> 0"
      "walletToId s (owner (identities ?s' (idCounter s + 1))) = 0"
      "hashToId s (uniqueIdentityHash (identities ?s' (idCounter s + 1))) = 0"
      "identities ?s' = (identities s)(idCounter s + 1 := identities ?s' (idCounter s + 1))"
      "walletToId ?s' = (walletToId s)(owner (identities ?s' (idCounter s + 1)) := idCounter s + 1)"
      "hashToId ?s' =
         (hashToId s)(uniqueIdentityHash (identities ?s' (idCounter s + 1)) := idCounter s + 1)"
      by simp_all
    from indexes_agree_new[OF assms(1,2) this]
    show ?thesis by (simp add: CreateIdentity outcome_def)
  qed
next
  case (UpdateIdentityData i new)
  show ?thesis
  proof (cases "fst (updateIdentityData env i new s) = s")
    case True
    with assms(1) show ?thesis by (simp add: UpdateIdentityData outcome_def)
  next
    case False
    then have "identities (fst (updateIdentityData env i new s)) =
        (identities s)(i := (identities s i)\<lparr>ipfsHash := new\<rparr>) \<and>
      walletToId (fst (updateIdentityData env i new s)) = walletToId s \<and>
      hashToId (fst (updateIdentityData env i new s)) = hashToId s"
      by (auto simp: call_defs split: if_splits)
    then have "indexes_agree (fst (updateIdentityData env i new s))"
      by (intro indexes_agree_touch[OF assms(1), where i = i
            and idn = "(identities s i)\<lparr>ipfsHash := new\<rparr>"]) simp_all
    then show ?thesis by (simp add: UpdateIdentityData outcome_def)
  qed
next
  case (VerifyIdentity i)
  show ?thesis
  proof (cases "fst (verifyIdentity env i s) = s")
    case True
    with assms(1) show ?thesis by (simp add: VerifyIdentity outcome_def)
  next
    case False
    then have "identities (fst (verifyIdentity env i s)) =
        (identities s)(i := (identities s i)\<lparr>isVerified := True\<rparr>) \<and>
      walletToId (fst (verifyIdentity env i s)) = walletToId s \<and>
      hashToId (fst (verifyIdentity env i s)) = hashToId s"
      by (auto simp: call_defs split: if_splits)
    then have "indexes_agree (fst (verifyIdentity env i s))"
      by (intro indexes_agree_touch[OF assms(1), where i = i
            and idn = "(identities s i)\<lparr>isVerified := True\<rparr>"]) simp_all
    then show ?thesis by (simp add: VerifyIdentity outcome_def)
  qed
next
  case (RevokeIdentity i)
  from revokeIdentity_effect[of env i s] show ?thesis
  proof
    assume "fst (revokeIdentity env i s) = s"
    with assms(1) show ?thesis by (simp add: RevokeIdentity outcome_def)
  next
    assume "identity_exists s i \<and>
      identities (fst (revokeIdentity env i s)) = (identities s)(i := empty_identity) \<and>
      walletToId (fst (revokeIdentity env i s)) = (walletToId s)(owner (identities s i) := 0) \<and>
      hashToId (fst (revokeIdentity env i s)) =
        (hashToId s)(uniqueIdentityHash (identities s i) := 0)"
    then have "indexes_agree (fst (revokeIdentity env i s))"
      by (intro indexes_agree_remove[OF assms(1), where i = i]) simp_all
    then show ?thesis by (simp add: RevokeIdentity outcome_def)
  qed
next
  case (TransferOwnership a)
  have "indexes_agree (fst (exec env c s)) = indexes_agree s"
    by (rule indexes_agree_cong) (simp_all add: TransferOwnership outcome_def call_defs)
  with assms(1) show ?thesis by simp
next
  case RenounceOwnership
  have "indexes_agree (fst (exec env c s)) = indexes_agree s"
    by (rule indexes_agree_cong) (simp_all add: RenounceOwnership outcome_def call_defs)
  with assms(1) show ?thesis by simp
qed

lemma indexes_agree_run:
  "indexes_agree s \<Longrightarrow> fresh_inv s \<Longrightarrow> \<forall>ec \<in> set cs. \<not> creates_for_zero (snd ec) \<Longrightarrow>
     indexes_agree (run cs s)"
proof (induction cs arbitrary: s)
  case Nil
  then show ?case by simp
next
  case (Cons ec cs)
  have nz: "\<And>ipfs d idty h. snd ec \<noteq> CreateIdentity 0 ipfs d idty h"
    using Cons.prems(3) by auto
  have "indexes_agree (fst (exec (fst ec) (snd ec) s))"
    by (rule indexes_agree_exec[OF Cons.prems(1,2) nz])
  moreover have "fresh_inv (fst (exec (fst ec) (snd ec) s))"
    by (rule fresh_inv_exec[OF Cons.prems(2)])
  ultimately show ?case using Cons.IH Cons.prems(3) by simp
qed

text \<open>From deployment, every run without a creation for the zero address keeps the
  indexes and the ledger in agreement; then the owner determines the Identity, and so
  does the fingerprint.\<close>

lemma indexes_agree_from_deployment:
  "\<forall>ec \<in> set cs. \<not> creates_for_zero (snd ec) \<Longrightarrow>
     indexes_agree (run cs (constructor env adminWallet'))"
  by (rule indexes_agree_run[OF indexes_agree_constructor fresh_inv_constructor])

lemma indexes_agree_unique:
  assumes "indexes_agree s" and "identity_exists s k" and "identity_exists s k'"
    and "owner (identities s k) = owner (identities s k') \<or>
         uniqueIdentityHash (identities s k) = uniqueIdentityHash (identities s k')"
  shows "k = k'"
proof -
  have a: "walletToId s (owner (identities s k)) = k"
    "hashToId s (uniqueIdentityHash (identities s k)) = k"
    using indexes_agree_identity[OF assms(1,2)] by blast+
  have b: "walletToId s (owner (identities s k')) = k'"
    "hashToId s (uniqueIdentityHash (identities s k')) = k'"
    using indexes_agree_identity[OF assms(1,3)] by blast+
  from assms(4) show ?thesis
  proof
    assume e: "owner (identities s k) = owner (identities s k')"
    have "k = walletToId s (owner (identities s k))" by (rule a(1)[symmetric])
    also have "\<dots> = walletToId s (owner (identities s k'))" by (simp only: e)
    also have "\<dots> = k'" by (rule b(1))
    finally show ?thesis .
  next
    assume e: "uniqueIdentityHash (identities s k) = uniqueIdentityHash (identities s k')"
    have "k = hashToId s (uniqueIdentityHash (identities s k))" by (rule a(2)[symmetric])
    also have "\<dots> = hashToId s (uniqueIdentityHash (identities s k'))" by (simp only: e)
    also have "\<dots> = k'" by (rule b(2))
    finally show ?thesis .
  qed
qed

end
